theory Spec2Isabelle
  imports Complex_Main "HOL-Library.Log_Nat" "HOL-Library.Sublist"
begin

text \<open>
  A shallow embedding of the three scripts of the Financial Report Generator:
  \<^verbatim>\<open>report_generator_enterprise.py\<close>, \<^verbatim>\<open>report_generator_plain.py\<close> and
  \<^verbatim>\<open>report_generator_tabulate.py\<close>. Python functions become HOL functions of the same
  name; the three \<^verbatim>\<open>main\<close> functions and the two \<^verbatim>\<open>validate_financial_data\<close> carry the
  name of their script as a suffix. Exceptions are values of \<open>pyexc\<close>, logging calls
  and prints are events of a trace, and what the operating system answers when a file is
  opened and read is an argument of the reader.
\<close>

section \<open>Python values\<close>

text \<open>
  A Python float is an IEEE 754 binary64. \<open>Fin q\<close> is the finite float whose exact value
  is the rational \<open>q\<close>; the two zeros are one value, as Python's \<^verbatim>\<open>==\<close> and
  \<^verbatim>\<open>hash\<close> do not tell them apart and nothing modelled here looks at the sign of a zero.
  A NaN compares unequal to everything under \<^verbatim>\<open>==\<close>, itself included
  (\<open>py_eq\<close>), but membership in a set and the comparison of the field tuples of a frozen
  dataclass first test identity, so a NaN is equal to itself as an object. The argument of
  \<open>NaN\<close> is that identity: HOL equality on \<open>pyfloat\<close> is then exactly the test
  ``same object or \<^verbatim>\<open>==\<close>'' that \<^verbatim>\<open>record in seen\<close> performs on each field. A float
  that is only computed and formatted (a margin, a total) has no identity that matters and
  is a \<open>float64\<close>.
\<close>

datatype 'n flt = Fin rat | PInf | NInf | NaN 'n

type_synonym float64 = "unit flt"
type_synonym pyfloat = "nat flt"

definition py_eq :: "'n flt \<Rightarrow> 'm flt \<Rightarrow> bool" where
  "py_eq x y = (case (x, y) of
      (Fin a, Fin b) \<Rightarrow> a = b
    | (PInf, PInf) \<Rightarrow> True
    | (NInf, NInf) \<Rightarrow> True
    | _ \<Rightarrow> False)"

text \<open>
  Rounding of an exact rational to the nearest binary64, ties to even, as the parser of
  \<^verbatim>\<open>float\<close>, the conversion of an \<^verbatim>\<open>int\<close> and the division of two floats do:
  53 significant bits, exponents down to the subnormal quantum \<open>2 ^ - 1074\<close>, and
  infinity from \<open>2 ^ 1024\<close> on.
\<close>

definition pow2 :: "int \<Rightarrow> rat" where
  "pow2 k = (if 0 \<le> k then 2 ^ nat k else 1 / 2 ^ nat (- k))"

definition floor_log2 :: "rat \<Rightarrow> int" where
  "floor_log2 q = (case quotient_of q of (n, d) \<Rightarrow>
     (let e = bitlen n - bitlen d in if pow2 e \<le> q then e else e - 1))"

definition round_half_even :: "rat \<Rightarrow> int" where
  "round_half_even x = (let f = \<lfloor>x\<rfloor>; r = x - of_int f in
     if r < 1 / 2 then f else if 1 / 2 < r then f + 1 else if even f then f else f + 1)"

definition b64_round :: "rat \<Rightarrow> 'n flt" where
  "b64_round q = (if q = 0 then Fin 0 else
     (let a = \<bar>q\<bar>;
          e = max (floor_log2 a) (- 1022);
          u = pow2 (e - 52);
          n = round_half_even (a / u)
      in if 1024 \<le> e \<or> (e = 1023 \<and> n = 2 ^ 53) then (if q < 0 then NInf else PInf)
         else Fin (if q < 0 then - (of_int n * u) else of_int n * u)))"


subsection \<open>The builtin float() on strings\<close>

text \<open>
  \<^verbatim>\<open>float(s)\<close> for a string, after CPython's \<^verbatim>\<open>PyFloat_FromString\<close>: non-ASCII spaces
  become blanks and any other non-ASCII character makes the string invalid; an underscore
  is allowed only between two digits; leading and trailing whitespace is stripped; what
  remains is an optional sign followed by \<^verbatim>\<open>inf\<close>, \<^verbatim>\<open>infinity\<close> or \<^verbatim>\<open>nan\<close> in any
  case, or by a decimal numeral with an optional exponent. A numeral too large for a
  binary64 gives an infinity, not an error. \<open>None\<close> stands for \<^verbatim>\<open>ValueError\<close>.
  A \<open>string\<close> holds the code points below 256; code points beyond (among them the
  decimal digits of other scripts, which \<^verbatim>\<open>float\<close> accepts) are outside the model.
\<close>

definition is_digit :: "char \<Rightarrow> bool" where
  "is_digit c = (48 \<le> (of_char c :: nat) \<and> (of_char c :: nat) \<le> 57)"

definition is_space :: "char \<Rightarrow> bool" where
  "is_space c = ((9 \<le> (of_char c :: nat) \<and> (of_char c :: nat) \<le> 13) \<or> (of_char c :: nat) = 32)"

definition to_ascii :: "char \<Rightarrow> char" where
  "to_ascii c = (let n = (of_char c :: nat) in
     if n < 127 then c else if n = 133 \<or> n = 160 then CHR '' '' else CHR ''?'')"

definition lower :: "char \<Rightarrow> char" where
  "lower c = (let n = (of_char c :: nat) in if 65 \<le> n \<and> n \<le> 90 then char_of (n + 32) else c)"

fun underscores_ok :: "char \<Rightarrow> string \<Rightarrow> bool" where
  "underscores_ok prev [] = (prev \<noteq> CHR ''_'')"
| "underscores_ok prev (c # cs) =
     (if c = CHR ''_'' then is_digit prev \<and> underscores_ok c cs
      else if prev = CHR ''_'' then is_digit c \<and> underscores_ok c cs
      else underscores_ok c cs)"

definition strip :: "string \<Rightarrow> string" where
  "strip s = rev (dropWhile is_space (rev (dropWhile is_space s)))"

definition digits :: "string \<Rightarrow> nat" where
  "digits ds = fold (\<lambda>c n. 10 * n + ((of_char c :: nat) - 48)) ds 0"

definition pow10 :: "int \<Rightarrow> rat" where
  "pow10 k = (if 0 \<le> k then 10 ^ nat k else 1 / 10 ^ nat (- k))"

definition parse_sign :: "string \<Rightarrow> bool \<times> string" where
  "parse_sign s = (case s of
      [] \<Rightarrow> (False, [])
    | c # r \<Rightarrow> if c = CHR ''-'' then (True, r) else if c = CHR ''+'' then (False, r) else (False, s))"

definition parse_exponent :: "string \<Rightarrow> int option" where
  "parse_exponent s = (case s of
      [] \<Rightarrow> Some 0
    | c # r \<Rightarrow>
        if c = CHR ''e'' \<or> c = CHR ''E'' then
          (case parse_sign r of (neg, ds) \<Rightarrow>
             if ds \<noteq> [] \<and> list_all is_digit ds
             then Some (if neg then - int (digits ds) else int (digits ds))
             else None)
        else None)"

definition parse_decimal :: "string \<Rightarrow> rat option" where
  "parse_decimal s =
     (let ip = takeWhile is_digit s;
          r1 = dropWhile is_digit s;
          fp = (case r1 of [] \<Rightarrow> [] | c # r \<Rightarrow> if c = CHR ''.'' then takeWhile is_digit r else []);
          r2 = (case r1 of [] \<Rightarrow> [] | c # r \<Rightarrow> if c = CHR ''.'' then dropWhile is_digit r else r1)
      in if ip = [] \<and> fp = [] then None
         else (case parse_exponent r2 of
                 None \<Rightarrow> None
               | Some ex \<Rightarrow> Some (of_nat (digits (ip @ fp)) * pow10 (ex - int (length fp)))))"

definition float_of_string :: "string \<Rightarrow> float64 option" where
  "float_of_string s =
     (let t = map to_ascii s in
      if \<not> underscores_ok (CHR 0x00) t then None
      else (case parse_sign (strip (filter (\<lambda>c. c \<noteq> CHR ''_'') t)) of (neg, body) \<Rightarrow>
        (let lb = map lower body in
         if lb = ''inf'' \<or> lb = ''infinity'' then Some (if neg then NInf else PInf)
         else if lb = ''nan'' then Some (NaN ())
         else (case parse_decimal body of
                 None \<Rightarrow> None
               | Some q \<Rightarrow> Some (b64_round (if neg then - q else q))))))"


subsection \<open>Values, exceptions and the builtin float()\<close>

text \<open>
  \<open>pyval\<close> is what a CSV field (always a \<open>PStr\<close>) or a value of a parsed JSON
  document can be; a \<open>PDict\<close> lists the items of a dict, whose keys are distinct.
  \<open>py_float oid v\<close> is \<^verbatim>\<open>float(v)\<close>, where \<open>oid\<close> is the identity of the float
  object the call creates when it creates one (an exact float is returned as it is).
  An \<^verbatim>\<open>int\<close> beyond the range of a binary64 raises \<^verbatim>\<open>OverflowError\<close>.
\<close>

datatype pyval =
    PNone
  | PBool bool
  | PInt int
  | PFloat pyfloat
  | PStr string
  | PList "pyval list"
  | PDict "(string \<times> pyval) list"

datatype pyexc =
    ValueError
  | TypeError
  | OverflowError
  | ZeroDivisionError
  | UnicodeDecodeError
  | FileNotFoundError
  | PermissionError
  | OSError
  | CsvError
  | JSONDecodeError

definition box :: "nat \<Rightarrow> float64 \<Rightarrow> pyfloat" where
  "box oid v = map_flt (\<lambda>_. oid) v"

definition float_of_int :: "int \<Rightarrow> pyexc + float64" where
  "float_of_int i = (case (b64_round (of_int i) :: float64) of
      Fin q \<Rightarrow> Inr (Fin q)
    | _ \<Rightarrow> Inl OverflowError)"

text \<open>
  \<open>overflows v\<close> holds when \<^verbatim>\<open>float(v)\<close> raises \<^verbatim>\<open>OverflowError\<close>.
  \<open>format_fixed v\<close> is the exception, if any, that formatting \<open>v\<close> with a
  fixed-point format specification such as \<^verbatim>\<open>{v:>7,.2f}\<close> raises: an \<^verbatim>\<open>int\<close> is
  converted to a float first.
\<close>

definition overflows :: "pyval \<Rightarrow> bool" where
  "overflows v = (case v of
      PInt i \<Rightarrow> (case float_of_int i of Inl e \<Rightarrow> True | Inr x \<Rightarrow> False)
    | _ \<Rightarrow> False)"

definition format_fixed :: "pyval \<Rightarrow> pyexc option" where
  "format_fixed v = (case v of
      PFloat f \<Rightarrow> None
    | PInt i \<Rightarrow> if overflows v then Some OverflowError else None
    | PBool b \<Rightarrow> None
    | PStr s \<Rightarrow> Some ValueError
    | _ \<Rightarrow> Some TypeError)"

fun py_float :: "nat \<Rightarrow> pyval \<Rightarrow> pyexc + pyfloat" where
  "py_float oid (PFloat f) = Inr f"
| "py_float oid (PInt i) = (case float_of_int i of Inl e \<Rightarrow> Inl e | Inr v \<Rightarrow> Inr (box oid v))"
| "py_float oid (PBool b) = Inr (Fin (if b then 1 else 0))"
| "py_float oid (PStr s) = (case float_of_string s of None \<Rightarrow> Inl ValueError | Some v \<Rightarrow> Inr (box oid v))"
| "py_float oid PNone = Inl TypeError"
| "py_float oid (PList xs) = Inl TypeError"
| "py_float oid (PDict kv) = Inl TypeError"

definition f64_div :: "'a flt \<Rightarrow> 'b flt \<Rightarrow> pyexc + float64" where
  "f64_div x y =
     (if py_eq y (Fin 0 :: float64) then Inl ZeroDivisionError
      else Inr (case (x, y) of
          (Fin a, Fin b) \<Rightarrow> b64_round (a / b)
        | (Fin a, PInf) \<Rightarrow> Fin 0
        | (Fin a, NInf) \<Rightarrow> Fin 0
        | (PInf, Fin b) \<Rightarrow> if 0 < b then PInf else NInf
        | (NInf, Fin b) \<Rightarrow> if 0 < b then NInf else PInf
        | _ \<Rightarrow> NaN ()))"

definition f64_add :: "'a flt \<Rightarrow> 'b flt \<Rightarrow> float64" where
  "f64_add x y = (case (x, y) of
      (Fin a, Fin b) \<Rightarrow> b64_round (a + b)
    | (Fin a, PInf) \<Rightarrow> PInf
    | (Fin a, NInf) \<Rightarrow> NInf
    | (PInf, Fin b) \<Rightarrow> PInf
    | (PInf, PInf) \<Rightarrow> PInf
    | (NInf, Fin b) \<Rightarrow> NInf
    | (NInf, NInf) \<Rightarrow> NInf
    | _ \<Rightarrow> NaN ())"

definition as_int :: "pyval \<Rightarrow> int option" where
  "as_int v = (case v of PInt i \<Rightarrow> Some i | PBool b \<Rightarrow> Some (if b then 1 else 0) | _ \<Rightarrow> None)"

definition py_truediv :: "pyval \<Rightarrow> pyval \<Rightarrow> pyexc + float64" where
  "py_truediv x y = (case (x, y) of
      (PFloat a, PFloat b) \<Rightarrow> f64_div a b
    | (PFloat a, _) \<Rightarrow>
        (case as_int y of
           None \<Rightarrow> Inl TypeError
         | Some j \<Rightarrow> (case float_of_int j of Inl e \<Rightarrow> Inl e | Inr b \<Rightarrow> f64_div a b))
    | (_, PFloat b) \<Rightarrow>
        (case as_int x of
           None \<Rightarrow> Inl TypeError
         | Some i \<Rightarrow> (case float_of_int i of Inl e \<Rightarrow> Inl e | Inr a \<Rightarrow> f64_div a b))
    | _ \<Rightarrow>
        (case (as_int x, as_int y) of
           (Some i, Some j) \<Rightarrow>
             if j = 0 then Inl ZeroDivisionError
             else (case (b64_round (of_int i / of_int j) :: float64) of
                     Fin q \<Rightarrow> Inr (Fin q)
                   | _ \<Rightarrow> Inl OverflowError)
         | _ \<Rightarrow> Inl TypeError))"

definition py_is_zero :: "pyval \<Rightarrow> bool" where
  "py_is_zero v = (case v of
      PFloat f \<Rightarrow> py_eq f (Fin 0 :: float64)
    | PInt i \<Rightarrow> i = 0
    | PBool b \<Rightarrow> \<not> b
    | _ \<Rightarrow> False)"

definition endswith :: "string \<Rightarrow> string \<Rightarrow> bool" where
  "endswith s suf = (length suf \<le> length s \<and> drop (length s - length suf) s = suf)"

section \<open>The enterprise variant\<close>

record FinancialRecord =
  revenue :: pyfloat
  profit :: pyfloat

definition margin :: "FinancialRecord \<Rightarrow> pyexc + float64 option" where
  "margin self =
     (if py_eq (revenue self) (Fin 0 :: float64) then Inr None
      else (case f64_div (profit self) (revenue self) of
              Inl e \<Rightarrow> Inl e
            | Inr q \<Rightarrow> Inr (Some q)))"

text \<open>
  A generator is modelled by the finite trace of what it does when it is run to the end:
  the records it yields and the diagnostics it logs, in order, and how it ends
  (exhausted, \<^verbatim>\<open>sys.exit\<close>, or an exception that propagates). The consumers in this
  program (\<open>pipeline_dedupe\<close>, \<open>format_table\<close>) always pull until the end, so a
  consumer is a function on traces that keeps the order of events; the lines it prints
  appear where it prints them, after the event that made it print. Messages and printed
  lines are kept as data, not formatted text.
\<close>

datatype level = INFO | WARNING | ERROR | CRITICAL

datatype message =
    Utf8_failed_trying_latin1
  | Skipping_invalid_data_row pyval pyval
  | Insufficient_columns nat
  | Failed_to_read_CSV pyexc
  | JSON_contained_no_list_data
  | Format_drift_detected string string "string list"
  | Invalid_JSON_file
  | Unexpected_error_reading_JSON pyexc
  | Removed_duplicate_records nat
  | Unsupported_file_extension

datatype line =
    Generating_report_for string
  | Table_header
  | Table_rule
  | Table_row FinancialRecord "float64 option"
  | Table_totals nat float64
  | Warning_zero_revenue pyfloat
  | Error_invalid_data pyval pyval pyexc
  | Error_reading_CSV pyexc
  | Error_reading_JSON pyexc
  | Input_file_must_be_csv_or_json
  | No_valid_data_to_display
  | Plain_header
  | Plain_rule
  | Plain_row pyval pyval "float64 option"
  | Tabulated "(pyval \<times> pyval \<times> float64 option) list" string

datatype event =
    Yield FinancialRecord
  | Log level message
  | Print line
  | Eprint line

datatype ending = Exhausted | SysExit nat | Raised pyexc

type_synonym gen = "event list \<times> ending"

text \<open>
  What the file system answers. \<open>probe\<close> is the exception raised, if any, when
  \<^verbatim>\<open>detect_encoding\<close> opens the file as UTF-8 and reads its first 1024 characters.
  \<open>reading enc\<close> is what \<^verbatim>\<open>csv.reader\<close> delivers when the file is opened with
  encoding \<open>enc\<close> and iterated: the rows it returns, the header first, and the
  exception that then ends the iteration, if any (with no row at all when opening fails).
  For JSON, the argument of the reader is the result of opening the file and
  \<^verbatim>\<open>json.load\<close>.
\<close>

datatype encoding = UTF8 | Latin1

record csv_source =
  probe :: "pyexc option"
  reading :: "encoding \<Rightarrow> string list list \<times> pyexc option"

record files =
  csv_file :: "string \<Rightarrow> csv_source"
  json_file :: "string \<Rightarrow> pyexc + pyval"

definition detect_encoding :: "csv_source \<Rightarrow> event list \<times> (pyexc + encoding)" where
  "detect_encoding src = (case probe src of
      None \<Rightarrow> ([], Inr UTF8)
    | Some e \<Rightarrow>
        if e = UnicodeDecodeError then ([Log INFO Utf8_failed_trying_latin1], Inr Latin1)
        else ([], Inl e))"

text \<open>
  \<open>validate_record oid\<close> gives the diagnostics logged and either the value returned or
  the exception that escapes: the \<^verbatim>\<open>except\<close> clause catches \<^verbatim>\<open>ValueError\<close> and
  \<^verbatim>\<open>TypeError\<close> only. The two floats it creates are the objects \<open>oid\<close> and
  \<open>Suc oid\<close>; the readers pass twice the line number or item index.
\<close>

definition validate_record :: "nat \<Rightarrow> pyval \<Rightarrow> pyval \<Rightarrow> event list \<times> (pyexc + FinancialRecord option)" where
  "validate_record oid raw_revenue raw_profit =
     (let handler = (\<lambda>e. if e = ValueError \<or> e = TypeError
                         then ([Log WARNING (Skipping_invalid_data_row raw_revenue raw_profit)], Inr None)
                         else ([], Inl e))
      in case py_float oid raw_revenue of
           Inl e \<Rightarrow> handler e
         | Inr rv \<Rightarrow>
             (case py_float (Suc oid) raw_profit of
                Inl e \<Rightarrow> handler e
              | Inr pf \<Rightarrow> ([], Inr (Some \<lparr>revenue = rv, profit = pf\<rparr>))))"

fun csv_rows :: "nat \<Rightarrow> string list list \<Rightarrow> event list \<times> pyexc option" where
  "csv_rows line_num [] = ([], None)"
| "csv_rows line_num (row # rows) =
     (if length row < 2 then
        (case csv_rows (Suc line_num) rows of (es, x) \<Rightarrow>
           (Log WARNING (Insufficient_columns line_num) # es, x))
      else
        (case validate_record (2 * line_num) (PStr (row ! 0)) (PStr (row ! 1)) of
           (ls, Inl e) \<Rightarrow> (ls, Some e)
         | (ls, Inr None) \<Rightarrow>
             (case csv_rows (Suc line_num) rows of (es, x) \<Rightarrow> (ls @ es, x))
         | (ls, Inr (Some record)) \<Rightarrow>
             (case csv_rows (Suc line_num) rows of (es, x) \<Rightarrow> (ls @ Yield record # es, x))))"

definition stream_csv :: "csv_source \<Rightarrow> gen" where
  "stream_csv src = (case detect_encoding src of
      (ls, Inl e) \<Rightarrow> (ls, Raised e)
    | (ls, Inr enc) \<Rightarrow>
        (case reading src enc of (rows, failure) \<Rightarrow>
           (case csv_rows 2 (drop 1 rows) of
              (es, Some e) \<Rightarrow> (ls @ es @ [Log ERROR (Failed_to_read_CSV e)], SysExit 1)
            | (es, None) \<Rightarrow>
                (case failure of
                   Some e \<Rightarrow> (ls @ es @ [Log ERROR (Failed_to_read_CSV e)], SysExit 1)
                 | None \<Rightarrow> (ls @ es, Exhausted)))))"

definition dict_get :: "(string \<times> pyval) list \<Rightarrow> string \<Rightarrow> pyval" where
  "dict_get kv k = (case map_of kv k of None \<Rightarrow> PNone | Some v \<Rightarrow> v)"

fun json_items :: "string \<Rightarrow> string \<Rightarrow> nat \<Rightarrow> pyval list \<Rightarrow> event list \<times> pyexc option" where
  "json_items key_rev key_prof index [] = ([], None)"
| "json_items key_rev key_prof index (item # items) =
     (let skip = json_items key_rev key_prof (Suc index) items;
          step = (\<lambda>v. case v of
                    (ls, Inl e) \<Rightarrow> (ls, Some e)
                  | (ls, Inr None) \<Rightarrow> (case skip of (es, x) \<Rightarrow> (ls @ es, x))
                  | (ls, Inr (Some record)) \<Rightarrow> (case skip of (es, x) \<Rightarrow> (ls @ Yield record # es, x)))
      in case item of
           PDict kv \<Rightarrow> step (validate_record (2 * index) (dict_get kv key_rev) (dict_get kv key_prof))
         | PList xs \<Rightarrow>
             if 2 \<le> length xs then step (validate_record (2 * index) (xs ! 0) (xs ! 1)) else skip
         | _ \<Rightarrow> skip)"

text \<open>
  \<open>json_handler\<close> is the pair of \<^verbatim>\<open>except\<close> clauses of \<^verbatim>\<open>stream_json\<close>, which both
  log an error and call \<^verbatim>\<open>sys.exit(1)\<close>.
\<close>

definition json_handler :: "pyexc \<Rightarrow> event list" where
  "json_handler e =
     (if e = JSONDecodeError then [Log ERROR Invalid_JSON_file]
      else [Log ERROR (Unexpected_error_reading_JSON e)])"

definition stream_json :: "(pyexc + pyval) \<Rightarrow> string \<Rightarrow> string \<Rightarrow> gen" where
  "stream_json loaded key_rev key_prof = (case loaded of
      Inl e \<Rightarrow> (json_handler e, SysExit 1)
    | Inr data \<Rightarrow>
        (let items = (case data of PList xs \<Rightarrow> xs | _ \<Rightarrow> []);
             w = (if items = [] then [Log WARNING JSON_contained_no_list_data] else []);
             d = (case items of
                    PDict kv # _ \<Rightarrow>
                      if key_rev \<in> set (map fst kv) \<and> key_prof \<in> set (map fst kv)
                      then []
                      else [Log CRITICAL (Format_drift_detected key_rev key_prof (map fst kv))]
                  | _ \<Rightarrow> [])
         in case json_items key_rev key_prof 0 items of
              (es, Some e) \<Rightarrow> (w @ d @ es @ json_handler e, SysExit 1)
            | (es, None) \<Rightarrow> (w @ d @ es, Exhausted)))"

text \<open>
  \<open>dedupe_loop\<close> is the \<^verbatim>\<open>for\<close> loop of \<^verbatim>\<open>pipeline_dedupe\<close> with its two
  variables \<^verbatim>\<open>seen\<close> and \<^verbatim>\<open>duplicates_count\<close>; the summary is logged only when the
  loop ends because the iterator is exhausted.
\<close>

fun dedupe_loop :: "FinancialRecord set \<Rightarrow> nat \<Rightarrow> event list \<Rightarrow> event list \<times> nat" where
  "dedupe_loop seen duplicates_count [] = ([], duplicates_count)"
| "dedupe_loop seen duplicates_count (Yield record # es) =
     (if record \<in> seen then dedupe_loop seen (Suc duplicates_count) es
      else (case dedupe_loop (insert record seen) duplicates_count es of
              (out, n) \<Rightarrow> (Yield record # out, n)))"
| "dedupe_loop seen duplicates_count (e # es) =
     (case dedupe_loop seen duplicates_count es of (out, n) \<Rightarrow> (e # out, n))"

definition pipeline_dedupe :: "gen \<Rightarrow> gen" where
  "pipeline_dedupe iterator = (case iterator of (es, fin) \<Rightarrow>
     (case dedupe_loop {} 0 es of (out, duplicates_count) \<Rightarrow>
        (case fin of
           Exhausted \<Rightarrow>
             (out @ (if 0 < duplicates_count
                     then [Log INFO (Removed_duplicate_records duplicates_count)] else []),
              Exhausted)
         | _ \<Rightarrow> (out, fin))))"


fun table_rows :: "nat \<Rightarrow> float64 \<Rightarrow> event list \<Rightarrow> event list \<times> (pyexc + nat \<times> float64)" where
  "table_rows count total_revenue [] = ([], Inr (count, total_revenue))"
| "table_rows count total_revenue (Yield rec # es) =
     (case margin rec of
        Inl e \<Rightarrow> ([], Inl e)
      | Inr m \<Rightarrow>
          (case table_rows (Suc count) (f64_add total_revenue (revenue rec)) es of
             (out, r) \<Rightarrow> (Print (Table_row rec m) # out, r)))"
| "table_rows count total_revenue (e # es) =
     (case table_rows count total_revenue es of (out, r) \<Rightarrow> (e # out, r))"

definition format_table :: "gen \<Rightarrow> gen" where
  "format_table records = (case records of (es, fin) \<Rightarrow>
     (case table_rows 0 (Fin 0) es of
        (out, Inl e) \<Rightarrow> (Print Table_header # Print Table_rule # out, Raised e)
      | (out, Inr (count, total_revenue)) \<Rightarrow>
          (case fin of
             Exhausted \<Rightarrow>
               (Print Table_header # Print Table_rule # out
                  @ [Print Table_rule, Print (Table_totals count total_revenue)],
                Exhausted)
           | _ \<Rightarrow> (Print Table_header # Print Table_rule # out, fin))))"

text \<open>
  The status the process ends with: 0 when the script runs to its end, the argument of
  \<^verbatim>\<open>sys.exit\<close>, and 1 for an exception nothing catches. \<open>report\<close> is steps 2 and 3
  of \<^verbatim>\<open>main\<close>: the banner is printed before \<^verbatim>\<open>format_table\<close> first pulls from the
  generators.
\<close>

definition exit_status :: "ending \<Rightarrow> nat" where
  "exit_status fin = (case fin of Exhausted \<Rightarrow> 0 | SysExit n \<Rightarrow> n | Raised e \<Rightarrow> 1)"

definition report :: "string \<Rightarrow> gen \<Rightarrow> event list \<times> nat" where
  "report file stream = (case format_table (pipeline_dedupe stream) of
     (out, fin) \<Rightarrow> (Print (Generating_report_for file) # out, exit_status fin))"

definition main_enterprise :: "files \<Rightarrow> string \<Rightarrow> string \<Rightarrow> string \<Rightarrow> event list \<times> nat" where
  "main_enterprise fs file rev_key prof_key =
     (if endswith file ''.csv'' then report file (stream_csv (csv_file fs file))
      else if endswith file ''.json'' then report file (stream_json (json_file fs file) rev_key prof_key)
      else ([Log ERROR Unsupported_file_extension], 1))"

section \<open>The plain and tabulate variants\<close>

text \<open>
  The two scripts share \<^verbatim>\<open>load_data_from_hardcoded\<close>, \<^verbatim>\<open>load_data_from_csv\<close>,
  \<^verbatim>\<open>load_data_from_json\<close> and the choice of the loader in \<^verbatim>\<open>main\<close> (\<open>load_data\<close>,
  \<open>None\<close> when the extension is refused) word for word; they differ in
  \<^verbatim>\<open>validate_financial_data\<close>, which the loaders take as an argument here, and in how
  the table is printed. The data are pairs of numbers: floats from the validator,
  \<^verbatim>\<open>int\<close>s in the hardcoded list. Prints to \<^verbatim>\<open>sys.stderr\<close> are \<open>Eprint\<close> events.
\<close>

type_synonym validator = "nat \<Rightarrow> pyval \<Rightarrow> pyval \<Rightarrow> event list \<times> (pyexc + (pyval \<times> pyval) option)"

definition validate_financial_data_plain :: validator where
  "validate_financial_data_plain oid revenue' profit' =
     (let handler = (\<lambda>e. if e = ValueError \<or> e = TypeError
                         then ([Eprint (Error_invalid_data revenue' profit' e)], Inr None)
                         else ([], Inl e))
      in case py_float oid revenue' of
           Inl e \<Rightarrow> handler e
         | Inr rv \<Rightarrow>
             (case py_float (Suc oid) profit' of
                Inl e \<Rightarrow> handler e
              | Inr pf \<Rightarrow>
                  if py_eq rv (Fin 0 :: float64) then ([Eprint (Warning_zero_revenue pf)], Inr None)
                  else ([], Inr (Some (PFloat rv, PFloat pf)))))"

definition validate_financial_data_tabulate :: validator where
  "validate_financial_data_tabulate oid revenue' profit' =
     (let handler = (\<lambda>e. if e = ValueError \<or> e = TypeError
                         then ([Eprint (Error_invalid_data revenue' profit' e)], Inr None)
                         else ([], Inl e))
      in case py_float oid revenue' of
           Inl e \<Rightarrow> handler e
         | Inr rv \<Rightarrow>
             (case py_float (Suc oid) profit' of
                Inl e \<Rightarrow> handler e
              | Inr pf \<Rightarrow> ([], Inr (Some (PFloat rv, PFloat pf)))))"

definition load_data_from_hardcoded :: "(pyval \<times> pyval) list" where
  "load_data_from_hardcoded =
     [(PInt 1000, PInt 10), (PInt 2000, PInt 17), (PInt 2500, PInt 170), (PInt 2500, PInt (- 170))]"

text \<open>
  \<open>collect\<close> is the body \<^verbatim>\<open>validated = validate_financial_data(...)\<close>,
  \<^verbatim>\<open>if validated: data.append(validated)\<close> of the two loading loops, followed by the rest
  of the loop: an exception ends the loop, and a non-empty tuple is true.
\<close>

definition collect ::
  "event list \<times> (pyexc + (pyval \<times> pyval) option) \<Rightarrow> event list \<times> (pyexc + (pyval \<times> pyval) list)
     \<Rightarrow> event list \<times> (pyexc + (pyval \<times> pyval) list)" where
  "collect validated rest = (case validated of
      (ls, Inl e) \<Rightarrow> (ls, Inl e)
    | (ls, Inr None) \<Rightarrow> (case rest of (es, r) \<Rightarrow> (ls @ es, r))
    | (ls, Inr (Some t)) \<Rightarrow>
        (case rest of
           (es, Inl e) \<Rightarrow> (ls @ es, Inl e)
         | (es, Inr data) \<Rightarrow> (ls @ es, Inr (t # data))))"

fun load_csv_rows :: "validator \<Rightarrow> nat \<Rightarrow> string list list \<Rightarrow> event list \<times> (pyexc + (pyval \<times> pyval) list)" where
  "load_csv_rows validate n [] = ([], Inr [])"
| "load_csv_rows validate n (row # rows) =
     (if 2 \<le> length row
      then collect (validate (2 * n) (PStr (row ! 0)) (PStr (row ! 1))) (load_csv_rows validate (Suc n) rows)
      else load_csv_rows validate (Suc n) rows)"

definition load_data_from_csv :: "validator \<Rightarrow> csv_source \<Rightarrow> event list \<times> (pyval \<times> pyval) list" where
  "load_data_from_csv validate src = (case reading src UTF8 of (rows, failure) \<Rightarrow>
     (case load_csv_rows validate 0 (drop 1 rows) of
        (es, Inl e) \<Rightarrow> (es @ [Eprint (Error_reading_CSV e)], [])
      | (es, Inr data) \<Rightarrow>
          (case failure of
             Some e \<Rightarrow> (es @ [Eprint (Error_reading_CSV e)], [])
           | None \<Rightarrow> (es, data))))"

fun load_json_items :: "validator \<Rightarrow> nat \<Rightarrow> pyval list \<Rightarrow> event list \<times> (pyexc + (pyval \<times> pyval) list)" where
  "load_json_items validate n [] = ([], Inr [])"
| "load_json_items validate n (item # items) =
     (case item of
        PDict kv \<Rightarrow>
          collect (validate (2 * n) (dict_get kv ''revenue'') (dict_get kv ''profit''))
            (load_json_items validate (Suc n) items)
      | PList xs \<Rightarrow>
          if 2 \<le> length xs
          then collect (validate (2 * n) (xs ! 0) (xs ! 1)) (load_json_items validate (Suc n) items)
          else load_json_items validate (Suc n) items
      | _ \<Rightarrow> load_json_items validate (Suc n) items)"

definition load_data_from_json :: "validator \<Rightarrow> (pyexc + pyval) \<Rightarrow> event list \<times> (pyval \<times> pyval) list" where
  "load_data_from_json validate loaded = (case loaded of
      Inl e \<Rightarrow> ([Eprint (Error_reading_JSON e)], [])
    | Inr json_data \<Rightarrow>
        (case load_json_items validate 0 (case json_data of PList xs \<Rightarrow> xs | _ \<Rightarrow> []) of
           (es, Inl e) \<Rightarrow> (es @ [Eprint (Error_reading_JSON e)], [])
         | (es, Inr data) \<Rightarrow> (es, data)))"

text \<open>
  \<open>format_row\<close> is the formatting of revenue and profit in the f-strings of
  \<^verbatim>\<open>format_and_print_table\<close>, revenue first; a percentage is a float and always
  formats. In \<open>plain_rows\<close> the \<^verbatim>\<open>try\<close> covers the division and the print, and only
  \<^verbatim>\<open>ZeroDivisionError\<close> is caught.
\<close>

definition format_row :: "pyval \<Rightarrow> pyval \<Rightarrow> pyexc option" where
  "format_row revenue' profit' = (case format_fixed revenue' of
      Some e \<Rightarrow> Some e
    | None \<Rightarrow> format_fixed profit')"

fun plain_rows :: "(pyval \<times> pyval) list \<Rightarrow> event list \<times> pyexc option" where
  "plain_rows [] = ([], None)"
| "plain_rows ((revenue', profit') # data) =
     (case py_truediv profit' revenue' of
        Inr percent \<Rightarrow>
          (case format_row revenue' profit' of
             Some e \<Rightarrow> ([], Some e)
           | None \<Rightarrow>
               (case plain_rows data of (out, x) \<Rightarrow>
                  (Print (Plain_row revenue' profit' (Some percent)) # out, x)))
      | Inl e \<Rightarrow>
          if e = ZeroDivisionError
          then (case format_row revenue' profit' of
                  Some e' \<Rightarrow> ([], Some e')
                | None \<Rightarrow>
                    (case plain_rows data of (out, x) \<Rightarrow>
                       (Print (Plain_row revenue' profit' None) # out, x)))
          else ([], Some e))"

definition format_and_print_table :: "(pyval \<times> pyval) list \<Rightarrow> gen" where
  "format_and_print_table data =
     (if data = [] then ([Print No_valid_data_to_display], Exhausted)
      else (case plain_rows data of
              (out, None) \<Rightarrow> (Print Plain_header # Print Plain_rule # out, Exhausted)
            | (out, Some e) \<Rightarrow> (Print Plain_header # Print Plain_rule # out, Raised e)))"

definition load_data :: "validator \<Rightarrow> files \<Rightarrow> string option \<Rightarrow> (event list \<times> (pyval \<times> pyval) list) option" where
  "load_data validate fs file = (case file of
      None \<Rightarrow> Some ([], load_data_from_hardcoded)
    | Some f \<Rightarrow>
        if f = [] then Some ([], load_data_from_hardcoded)
        else if endswith f ''.csv'' then Some (load_data_from_csv validate (csv_file fs f))
        else if endswith f ''.json'' then Some (load_data_from_json validate (json_file fs f))
        else None)"

definition main_plain :: "files \<Rightarrow> string option \<Rightarrow> event list \<times> nat" where
  "main_plain fs file = (case load_data validate_financial_data_plain fs file of
      None \<Rightarrow> ([Print Input_file_must_be_csv_or_json], 0)
    | Some (es, data) \<Rightarrow>
        (case format_and_print_table data of (out, fin) \<Rightarrow> (es @ out, exit_status fin)))"

text \<open>
  \<open>process_data\<close> is the loop of the tabulate variant's \<^verbatim>\<open>main\<close> that builds
  \<^verbatim>\<open>processed_data\<close>; the \<^verbatim>\<open>tabulate\<close> package is taken to be installed and its output
  is kept as the table it is given together with the format name.
\<close>

fun process_data :: "(pyval \<times> pyval) list \<Rightarrow> pyexc + (pyval \<times> pyval \<times> float64 option) list" where
  "process_data [] = Inr []"
| "process_data ((revenue', profit') # data) =
     (if py_is_zero revenue'
      then (case process_data data of Inl e \<Rightarrow> Inl e | Inr rows \<Rightarrow> Inr ((revenue', profit', None) # rows))
      else (case py_truediv profit' revenue' of
              Inl e \<Rightarrow> Inl e
            | Inr percent \<Rightarrow>
                (case process_data data of
                   Inl e \<Rightarrow> Inl e
                 | Inr rows \<Rightarrow> Inr ((revenue', profit', Some percent) # rows))))"

definition main_tabulate :: "files \<Rightarrow> string option \<Rightarrow> string \<Rightarrow> event list \<times> nat" where
  "main_tabulate fs file fmt = (case load_data validate_financial_data_tabulate fs file of
      None \<Rightarrow> ([Print Input_file_must_be_csv_or_json], 0)
    | Some (es, data) \<Rightarrow>
        (case process_data data of
           Inl e \<Rightarrow> (es, exit_status (Raised e))
         | Inr processed_data \<Rightarrow>
             if processed_data = [] then (es @ [Print No_valid_data_to_display], 0)
             else (es @ [Print (Tabulated processed_data fmt)], 0)))"


section \<open>Notions used in the statements\<close>

text \<open>
  \<open>yielded\<close>, \<open>logged\<close> and \<open>printed\<close> read a trace; \<open>iterator_of S\<close> is an
  iterator over the list \<open>S\<close> and \<open>dedupe S\<close> the list of records the filter yields
  on it. \<open>first_occurrences\<close> follows the words of the specification: the elements at
  the positions whose element does not occur at an earlier position. \<open>csv_row_event\<close>
  and \<open>json_item_events\<close> say what one row or item contributes to the stream on its
  own, \<open>csv_row_data\<close> and \<open>csv_row_prints\<close> what one row contributes to the data
  and to \<^verbatim>\<open>stderr\<close> in \<^verbatim>\<open>load_data_from_csv\<close>, where zero revenue is accepted
  (tabulate) or not (plain).
  \<open>csv_of\<close>, \<open>missing_csv\<close> and \<open>files_with\<close> build the files of the examples.
\<close>

definition yielded :: "event list \<Rightarrow> FinancialRecord list" where
  "yielded es = List.map_filter (\<lambda>e. case e of Yield r \<Rightarrow> Some r | _ \<Rightarrow> None) es"

definition iterator_of :: "FinancialRecord list \<Rightarrow> gen" where
  "iterator_of S = (map Yield S, Exhausted)"

definition first_occurrences :: "'a list \<Rightarrow> 'a list" where
  "first_occurrences S = map (nth S) (filter (\<lambda>i. S ! i \<notin> set (take i S)) [0..<length S])"

definition new_in :: "'a set \<Rightarrow> 'a list \<Rightarrow> 'a list" where
  "new_in seen S = map (nth S) (filter (\<lambda>i. S ! i \<notin> seen \<union> set (take i S)) [0..<length S])"


definition csv_row_event :: "nat \<Rightarrow> string list \<Rightarrow> event" where
  "csv_row_event line_num row =
     (if length row < 2 then Log WARNING (Insufficient_columns line_num)
      else (case (float_of_string (row ! 0), float_of_string (row ! 1)) of
              (Some a, Some b) \<Rightarrow>
                Yield \<lparr>revenue = box (2 * line_num) a, profit = box (Suc (2 * line_num)) b\<rparr>
            | _ \<Rightarrow> Log WARNING (Skipping_invalid_data_row (PStr (row ! 0)) (PStr (row ! 1)))))"

definition csv_row_data :: "bool \<Rightarrow> nat \<Rightarrow> string list \<Rightarrow> (pyval \<times> pyval) list" where
  "csv_row_data zero_ok n row =
     (if 2 \<le> length row then
        (case (float_of_string (row ! 0), float_of_string (row ! 1)) of
           (Some a, Some b) \<Rightarrow>
             if zero_ok then [(PFloat (box (2 * n) a), PFloat (box (Suc (2 * n)) b))]
             else if a = Fin 0 then []
             else [(PFloat (box (2 * n) a), PFloat (box (Suc (2 * n)) b))]
         | _ \<Rightarrow> [])
      else [])"

definition csv_row_prints :: "bool \<Rightarrow> nat \<Rightarrow> string list \<Rightarrow> event list" where
  "csv_row_prints zero_ok n row =
     (if 2 \<le> length row then
        (case (float_of_string (row ! 0), float_of_string (row ! 1)) of
           (Some a, Some b) \<Rightarrow>
             if zero_ok then []
             else if a = Fin 0 then [Eprint (Warning_zero_revenue (box (Suc (2 * n)) b))]
             else []
         | _ \<Rightarrow> [Eprint (Error_invalid_data (PStr (row ! 0)) (PStr (row ! 1)) ValueError)])
      else [])"

definition validated_events :: "nat \<Rightarrow> pyval \<Rightarrow> pyval \<Rightarrow> event list" where
  "validated_events oid r p = (case validate_record oid r p of
      (ls, Inr (Some record)) \<Rightarrow> ls @ [Yield record]
    | (ls, _) \<Rightarrow> ls)"

definition item_overflows :: "string \<Rightarrow> string \<Rightarrow> pyval \<Rightarrow> bool" where
  "item_overflows key_rev key_prof item = (case item of
      PDict kv \<Rightarrow> overflows (dict_get kv key_rev) \<or> overflows (dict_get kv key_prof)
    | PList xs \<Rightarrow> 2 \<le> length xs \<and> (overflows (xs ! 0) \<or> overflows (xs ! 1))
    | _ \<Rightarrow> False)"

definition json_item_events :: "string \<Rightarrow> string \<Rightarrow> nat \<Rightarrow> pyval \<Rightarrow> event list" where
  "json_item_events key_rev key_prof index item = (case item of
      PDict kv \<Rightarrow> validated_events (2 * index) (dict_get kv key_rev) (dict_get kv key_prof)
    | PList xs \<Rightarrow> if 2 \<le> length xs then validated_events (2 * index) (xs ! 0) (xs ! 1) else []
    | _ \<Rightarrow> [])"


definition dedupe :: "FinancialRecord list \<Rightarrow> FinancialRecord list" where
  "dedupe S = yielded (fst (pipeline_dedupe (iterator_of S)))"

definition logged :: "event list \<Rightarrow> (level \<times> message) list" where
  "logged es = List.map_filter (\<lambda>e. case e of Log l m \<Rightarrow> Some (l, m) | _ \<Rightarrow> None) es"

definition printed :: "event list \<Rightarrow> line list" where
  "printed es = List.map_filter (\<lambda>e. case e of Print t \<Rightarrow> Some t | _ \<Rightarrow> None) es"

definition row_line :: "FinancialRecord \<Rightarrow> line" where
  "row_line r = Table_row r (case margin r of Inr m \<Rightarrow> m | Inl e \<Rightarrow> None)"

definition csv_of :: "string list list \<Rightarrow> pyexc option \<Rightarrow> csv_source" where
  "csv_of rows failure = \<lparr>probe = None, reading = (\<lambda>enc. (rows, failure))\<rparr>"

definition missing_csv :: csv_source where
  "missing_csv = \<lparr>probe = Some FileNotFoundError, reading = (\<lambda>enc. ([], Some FileNotFoundError))\<rparr>"

definition files_with :: "csv_source \<Rightarrow> (pyexc + pyval) \<Rightarrow> files" where
  "files_with c j = \<lparr>csv_file = (\<lambda>path. c), json_file = (\<lambda>path. j)\<rparr>"

section \<open>Auxiliary facts\<close>

lemma py_eq_zero [simp]: "py_eq x (Fin 0 :: float64) = (x = Fin 0)"
  by (cases x) (simp_all add: py_eq_def)

lemma yielded_simps [simp]:
  "yielded [] = []"
  "yielded (Yield r # es) = r # yielded es"
  "yielded (Log l m # es) = yielded es"
  "yielded (Print t # es) = yielded es"
  "yielded (Eprint t # es) = yielded es"
  by (simp_all add: yielded_def List.map_filter_simps)

lemma yielded_append [simp]: "yielded (xs @ ys) = yielded xs @ yielded ys"
  by (simp add: yielded_def List.map_filter_def)

lemma yielded_map_Yield [simp]: "yielded (map Yield S) = S"
  by (induction S) simp_all

lemma new_in_Nil [simp]: "new_in seen [] = []"
  by (simp add: new_in_def)

lemma new_in_Cons:
  "new_in seen (x # S) = (if x \<in> seen then new_in seen S else x # new_in (insert x seen) S)"
proof -
  have upt: "[0..<length (x # S)] = 0 # map Suc [0..<length S]"
    by (simp add: upt_conv_Cons map_Suc_upt del: upt_Suc)
  have step: "new_in seen (x # S) = (if x \<in> seen then [] else [x]) @ new_in (insert x seen) S"
    unfolding new_in_def upt by (simp add: filter_map comp_def conj_ac)
  show ?thesis
  proof (cases "x \<in> seen")
    case True
    then have "insert x seen = seen" by (rule insert_absorb)
    with True step show ?thesis by simp
  next
    case False
    with step show ?thesis by simp
  qed
qed

lemma first_occurrences_new_in: "first_occurrences S = new_in {} S"
  by (simp add: first_occurrences_def new_in_def)

lemma dedupe_loop_yielded:
  "yielded (fst (dedupe_loop seen d es)) = new_in seen (yielded es)"
proof (induction seen d es rule: dedupe_loop.induct)
  case (1 seen d)
  then show ?case by simp
next
  case (2 seen d r es)
  then show ?case
    by (simp add: new_in_Cons case_prod_beta)
qed (simp_all add: case_prod_beta)

lemma new_in_set: "set (new_in seen S) = set S - seen"
  by (induction S arbitrary: seen) (auto simp: new_in_Cons)

lemma new_in_distinct: "distinct (new_in seen S)"
  by (induction S arbitrary: seen) (auto simp: new_in_Cons new_in_set)

lemma new_in_fixed: "distinct S \<Longrightarrow> set S \<inter> seen = {} \<Longrightarrow> new_in seen S = S"
  by (induction S arbitrary: seen) (auto simp: new_in_Cons)

lemma dedupe_loop_fixed:
  "distinct (yielded es) \<Longrightarrow> set (yielded es) \<inter> seen = {} \<Longrightarrow> dedupe_loop seen d es = (es, d)"
  by (induction seen d es rule: dedupe_loop.induct) (simp_all add: case_prod_beta)

lemma validate_record_strings:
  "validate_record oid (PStr s) (PStr t) =
     (case (float_of_string s, float_of_string t) of
        (Some a, Some b) \<Rightarrow> ([], Inr (Some \<lparr>revenue = box oid a, profit = box (Suc oid) b\<rparr>))
      | _ \<Rightarrow> ([Log WARNING (Skipping_invalid_data_row (PStr s) (PStr t))], Inr None))"
  by (simp add: validate_record_def split: option.splits)

lemma upt_shift: "[n..<n + Suc k] = n # [Suc n..<Suc n + k]"
  by (simp add: upt_conv_Cons del: upt_Suc)

lemma csv_rows_events:
  "csv_rows n rows = (map2 csv_row_event [n..<n + length rows] rows, None)"
proof (induction rows arbitrary: n)
  case Nil
  then show ?case by simp
next
  case (Cons row rows)
  have ih: "csv_rows (Suc n) rows = (map2 csv_row_event [Suc n..<Suc n + length rows] rows, None)"
    by (rule Cons.IH)
  have up: "[n..<n + length (row # rows)] = n # [Suc n..<Suc n + length rows]"
    using upt_shift [of n "length rows"] by simp
  show ?case
    unfolding up
    by (simp add: ih csv_row_event_def validate_record_strings split: option.splits)
qed

lemma float_of_int_fin: "float_of_int i = Inl e \<Longrightarrow> e = OverflowError"
  by (simp add: float_of_int_def split: flt.splits)

lemma py_float_error:
  "py_float oid v = Inl e \<Longrightarrow> e = ValueError \<or> e = TypeError \<or> (e = OverflowError \<and> overflows v)"
  by (cases v) (auto simp: overflows_def split: sum.splits option.splits dest: float_of_int_fin)

lemma validate_record_no_raise:
  "\<not> overflows r \<Longrightarrow> \<not> overflows p \<Longrightarrow> snd (validate_record oid r p) \<noteq> Inl e"
proof -
  assume r: "\<not> overflows r" and p: "\<not> overflows p"
  have a: "py_float oid r = Inl x \<Longrightarrow> x = ValueError \<or> x = TypeError" for x
    using py_float_error [of oid r x] r by blast
  have b: "py_float (Suc oid) p = Inl x \<Longrightarrow> x = ValueError \<or> x = TypeError" for x
    using py_float_error [of "Suc oid" p x] p by blast
  show ?thesis
    using a b by (auto simp: validate_record_def Let_def split: sum.splits)
qed

lemma json_step:
  assumes "\<not> overflows r" "\<not> overflows p"
    and "rest = (es, None)"
  shows "(case validate_record oid r p of
            (ls, Inl e) \<Rightarrow> (ls, Some e)
          | (ls, Inr None) \<Rightarrow> (case rest of (es, x) \<Rightarrow> (ls @ es, x))
          | (ls, Inr (Some record)) \<Rightarrow> (case rest of (es, x) \<Rightarrow> (ls @ Yield record # es, x)))
         = (validated_events oid r p @ es, None)"
proof -
  obtain ls res where v: "validate_record oid r p = (ls, res)"
    by (cases "validate_record oid r p")
  have "res \<noteq> Inl e" for e
    using validate_record_no_raise [OF assms(1,2), of oid e] v by simp
  then show ?thesis
    using v assms(3) by (cases res) (auto simp: validated_events_def split: option.splits)
qed

lemma json_items_events:
  "list_all (\<lambda>item. \<not> item_overflows key_rev key_prof item) items \<Longrightarrow>
   json_items key_rev key_prof i items
     = (concat (map2 (json_item_events key_rev key_prof) [i..<i + length items] items), None)"
proof (induction items arbitrary: i)
  case Nil
  then show ?case by simp
next
  case (Cons item items)
  have ih: "json_items key_rev key_prof (Suc i) items
      = (concat (map2 (json_item_events key_rev key_prof) [Suc i..<Suc i + length items] items), None)"
    using Cons by simp
  have no: "\<not> item_overflows key_rev key_prof item"
    using Cons.prems by simp
  have up: "[i..<i + length (item # items)] = i # [Suc i..<Suc i + length items]"
    using upt_shift [of i "length items"] by simp
  have step: "json_items key_rev key_prof i (item # items)
      = (json_item_events key_rev key_prof i item
           @ concat (map2 (json_item_events key_rev key_prof) [Suc i..<Suc i + length items] items), None)"
  proof (cases item)
    case (PDict kv)
    then have o: "\<not> overflows (dict_get kv key_rev)" "\<not> overflows (dict_get kv key_prof)"
      using no by (simp_all add: item_overflows_def)
    show ?thesis
      using json_step [OF o ih] PDict by (simp add: json_item_events_def)
  next
    case (PList xs)
    show ?thesis
    proof (cases "2 \<le> length xs")
      case True
      then have o: "\<not> overflows (xs ! 0)" "\<not> overflows (xs ! 1)"
        using no PList by (simp_all add: item_overflows_def)
      show ?thesis
        using json_step [OF o ih] PList True by (simp add: json_item_events_def)
    next
      case False
      then show ?thesis
        using PList ih by (simp add: json_item_events_def)
    qed
  qed (simp_all add: ih json_item_events_def)
  show ?case
    unfolding up using step by simp
qed

lemma logged_simps [simp]:
  "logged [] = []"
  "logged (Yield r # es) = logged es"
  "logged (Log l m # es) = (l, m) # logged es"
  "logged (Print t # es) = logged es"
  "logged (Eprint t # es) = logged es"
  by (simp_all add: logged_def List.map_filter_simps)

lemma logged_append [simp]: "logged (xs @ ys) = logged xs @ logged ys"
  by (simp add: logged_def List.map_filter_def)

lemma printed_simps [simp]:
  "printed [] = []"
  "printed (Yield r # es) = printed es"
  "printed (Log l m # es) = printed es"
  "printed (Print t # es) = t # printed es"
  "printed (Eprint t # es) = printed es"
  by (simp_all add: printed_def List.map_filter_simps)

lemma printed_append [simp]: "printed (xs @ ys) = printed xs @ printed ys"
  by (simp add: printed_def List.map_filter_def)

lemma margin_no_raise: "margin r \<noteq> Inl e"
  by (auto simp: margin_def f64_div_def split: sum.splits)

lemma dedupe_loop_logged: "logged (fst (dedupe_loop seen d es)) = logged es"
  by (induction seen d es rule: dedupe_loop.induct) (simp_all add: case_prod_beta)

lemma dedupe_loop_printed: "printed (fst (dedupe_loop seen d es)) = printed es"
  by (induction seen d es rule: dedupe_loop.induct) (simp_all add: case_prod_beta)

lemma table_rows_Inr: "\<exists>c' t'. snd (table_rows c t es) = Inr (c', t')"
proof (induction c t es rule: table_rows.induct)
  case (2 c t r es)
  obtain m where m: "margin r = Inr m"
    using margin_no_raise [of r] by (cases "margin r") auto
  show ?case using 2 [OF m] by (simp add: m case_prod_beta)
qed (simp_all add: case_prod_beta)

lemma table_rows_logged: "logged (fst (table_rows c t es)) = logged es"
proof (induction c t es rule: table_rows.induct)
  case (2 c t r es)
  obtain m where m: "margin r = Inr m"
    using margin_no_raise [of r] by (cases "margin r") auto
  show ?case using 2 [OF m] by (simp add: m case_prod_beta)
qed (simp_all add: case_prod_beta)

lemma table_rows_printed:
  "printed es = [] \<Longrightarrow> printed (fst (table_rows c t es)) = map row_line (yielded es)"
proof (induction c t es rule: table_rows.induct)
  case (2 c t r es)
  obtain m where m: "margin r = Inr m"
    using margin_no_raise [of r] by (cases "margin r") auto
  show ?case using 2 m by (simp add: case_prod_beta row_line_def)
qed (simp_all add: case_prod_beta)

lemma csv_events_printed: "printed (map2 csv_row_event ns rows) = []"
proof (induction rows arbitrary: ns)
  case (Cons row rows)
  then show ?case
    by (cases ns) (simp_all add: csv_row_event_def split: option.splits)
qed simp

lemma detect_encoding_cases:
  "detect_encoding src = (ls, Inr enc) \<Longrightarrow>
     (ls = [] \<and> enc = UTF8) \<or> (ls = [Log INFO Utf8_failed_trying_latin1] \<and> enc = Latin1)"
  by (auto simp: detect_encoding_def split: option.splits if_splits)

lemma stream_csv_result:
  "detect_encoding src = (ls, Inr enc) \<Longrightarrow> reading src enc = (rows, failure) \<Longrightarrow>
   stream_csv src =
     (case failure of
        None \<Rightarrow> (ls @ map2 csv_row_event [2..<2 + length (drop 1 rows)] (drop 1 rows), Exhausted)
      | Some e \<Rightarrow> (ls @ map2 csv_row_event [2..<2 + length (drop 1 rows)] (drop 1 rows)
                      @ [Log ERROR (Failed_to_read_CSV e)], SysExit 1))"
  by (simp add: stream_csv_def csv_rows_events split: option.splits)

lemma validate_plain_printed: "printed (fst (validate_financial_data_plain oid r p)) = []"
  by (simp add: validate_financial_data_plain_def Let_def split: sum.splits)

lemma validate_tabulate_printed: "printed (fst (validate_financial_data_tabulate oid r p)) = []"
  by (simp add: validate_financial_data_tabulate_def Let_def split: sum.splits)

lemma collect_printed:
  "printed (fst a) = [] \<Longrightarrow> printed (fst b) = [] \<Longrightarrow> printed (fst (collect a b)) = []"
  by (auto simp: collect_def split: prod.splits sum.splits option.splits)

lemma load_csv_rows_printed:
  "(\<And>oid r p. printed (fst (v oid r p)) = []) \<Longrightarrow> printed (fst (load_csv_rows v n rows)) = []"
  by (induction rows arbitrary: n) (simp_all add: collect_printed)

lemma load_data_from_csv_failed:
  "(\<And>oid r p. printed (fst (v oid r p)) = []) \<Longrightarrow> reading src UTF8 = (rows, Some e) \<Longrightarrow>
   printed (fst (load_data_from_csv v src)) = [] \<and> snd (load_data_from_csv v src) = []"
proof -
  assume v: "\<And>oid r p. printed (fst (v oid r p)) = []" and r: "reading src UTF8 = (rows, Some e)"
  obtain es res where l: "load_csv_rows v 0 (drop 1 rows) = (es, res)"
    by (cases "load_csv_rows v 0 (drop 1 rows)")
  have "printed es = []"
    using load_csv_rows_printed [of v 0 "drop 1 rows"] v l by simp
  then show ?thesis
    using r l by (cases res) (simp_all add: load_data_from_csv_def)
qed

lemma bitlen_one: "bitlen 1 = 1"
  by (subst compute_bitlen) simp

lemma floor_log2_int: "0 < n \<Longrightarrow> floor_log2 (of_int n) = bitlen n - 1"
proof -
  assume n: "0 < n"
  have b: "0 < bitlen n"
    using n bitlen_eq_zero_iff [of n] bitlen_nonneg [of n] by linarith
  have "2 ^ nat (bitlen n - 1) \<le> n" using bitlen_bounds [OF n] by simp
  then have "(2::rat) ^ nat (bitlen n - 1) \<le> of_int n"
    by (metis of_int_le_iff of_int_numeral of_int_power)
  then show ?thesis
    using b by (simp add: floor_log2_def bitlen_one pow2_def)
qed

lemma bitlen_big: "2 ^ 1024 \<le> n \<Longrightarrow> 1025 \<le> bitlen n"
  by (simp add: bitlen_ge_iff_power)

lemma float_of_int_overflow: "2 ^ 1024 \<le> \<bar>i\<bar> \<Longrightarrow> float_of_int i = Inl OverflowError"
proof -
  assume h: "2 ^ 1024 \<le> \<bar>i\<bar>"
  have p: "0 < \<bar>i\<bar>" using h by (smt (verit) zero_less_power)
  have a: "\<bar>of_int i :: rat\<bar> = of_int \<bar>i\<bar>" by simp
  have e: "1024 \<le> floor_log2 \<bar>of_int i :: rat\<bar>"
    unfolding a using floor_log2_int [OF p] bitlen_big [OF h] by simp
  have nz: "(of_int i :: rat) \<noteq> 0" using p by simp
  show ?thesis
    using e nz by (simp add: float_of_int_def b64_round_def Let_def del: of_int_abs)
qed


text \<open>
  An \<^verbatim>\<open>int\<close> of magnitude \<open>2 ^ 1024\<close> or more overflows, and the exception is not one
  of the two that \<open>validate_record\<close> catches: in a JSON document it ends the enterprise
  stream with an error and \<^verbatim>\<open>sys.exit(1)\<close>, and makes the other variants return no
  data, whatever the items after it.
\<close>

lemma overflows_big_int: "2 ^ 1024 \<le> \<bar>i\<bar> \<Longrightarrow> overflows (PInt i)"
  by (simp add: overflows_def float_of_int_overflow)

lemma validate_record_overflow:
  "overflows r \<Longrightarrow> validate_record oid r p = ([], Inl OverflowError)"
proof -
  assume o: "overflows r"
  then obtain i e where r: "r = PInt i" and f: "float_of_int i = Inl e"
    by (cases r) (auto simp: overflows_def split: sum.splits)
  have "e = OverflowError" using f by (rule float_of_int_fin)
  then show ?thesis
    using r f by (simp add: validate_record_def)
qed

lemma stream_json_overflow_exits:
  "overflows r \<Longrightarrow>
   stream_json (Inr (PList (PList (r # p # xs) # items))) key_rev key_prof
     = ([Log ERROR (Unexpected_error_reading_JSON OverflowError)], SysExit 1)"
  by (simp add: stream_json_def validate_record_overflow json_handler_def)

lemma load_data_from_json_overflow_empty:
  "overflows r \<Longrightarrow>
   load_data_from_json validate_financial_data_tabulate (Inr (PList (PList (r # p # xs) # items)))
     = ([Eprint (Error_reading_JSON OverflowError)], [])"
proof -
  assume o: "overflows r"
  then obtain i e where r: "r = PInt i" and f: "float_of_int i = Inl e"
    by (cases r) (auto simp: overflows_def split: sum.splits)
  have "e = OverflowError" using f by (rule float_of_int_fin)
  then show ?thesis
    using r f by (simp add: load_data_from_json_def validate_financial_data_tabulate_def collect_def)
qed

lemma box_eq_Fin [simp]: "(box oid a = Fin q) = (a = Fin q)"
  by (cases a) (simp_all add: box_def)

lemma validate_tabulate_strings:
  "validate_financial_data_tabulate oid (PStr s) (PStr t) =
     (case (float_of_string s, float_of_string t) of
        (Some a, Some b) \<Rightarrow> ([], Inr (Some (PFloat (box oid a), PFloat (box (Suc oid) b))))
      | _ \<Rightarrow> ([Eprint (Error_invalid_data (PStr s) (PStr t) ValueError)], Inr None))"
  by (simp add: validate_financial_data_tabulate_def split: option.splits)

lemma validate_plain_strings:
  "validate_financial_data_plain oid (PStr s) (PStr t) =
     (case (float_of_string s, float_of_string t) of
        (Some a, Some b) \<Rightarrow>
          if a = Fin 0 then ([Eprint (Warning_zero_revenue (box (Suc oid) b))], Inr None)
          else ([], Inr (Some (PFloat (box oid a), PFloat (box (Suc oid) b))))
      | _ \<Rightarrow> ([Eprint (Error_invalid_data (PStr s) (PStr t) ValueError)], Inr None))"
  by (simp add: validate_financial_data_plain_def split: option.splits)

lemma load_csv_rows_tabulate:
  "load_csv_rows validate_financial_data_tabulate n rows
     = (concat (map2 (csv_row_prints True) [n..<n + length rows] rows),
        Inr (concat (map2 (csv_row_data True) [n..<n + length rows] rows)))"
proof (induction rows arbitrary: n)
  case Nil
  then show ?case by simp
next
  case (Cons row rows)
  have ih: "load_csv_rows validate_financial_data_tabulate (Suc n) rows
     = (concat (map2 (csv_row_prints True) [Suc n..<Suc n + length rows] rows),
        Inr (concat (map2 (csv_row_data True) [Suc n..<Suc n + length rows] rows)))"
    by (rule Cons.IH)
  have up: "[n..<n + length (row # rows)] = n # [Suc n..<Suc n + length rows]"
    using upt_shift [of n "length rows"] by simp
  show ?case
    unfolding up
    by (simp add: ih csv_row_prints_def csv_row_data_def validate_tabulate_strings collect_def
        split: option.splits)
qed

lemma load_csv_rows_plain:
  "load_csv_rows validate_financial_data_plain n rows
     = (concat (map2 (csv_row_prints False) [n..<n + length rows] rows),
        Inr (concat (map2 (csv_row_data False) [n..<n + length rows] rows)))"
proof (induction rows arbitrary: n)
  case Nil
  then show ?case by simp
next
  case (Cons row rows)
  have ih: "load_csv_rows validate_financial_data_plain (Suc n) rows
     = (concat (map2 (csv_row_prints False) [Suc n..<Suc n + length rows] rows),
        Inr (concat (map2 (csv_row_data False) [Suc n..<Suc n + length rows] rows)))"
    by (rule Cons.IH)
  have up: "[n..<n + length (row # rows)] = n # [Suc n..<Suc n + length rows]"
    using upt_shift [of n "length rows"] by simp
  show ?case
    unfolding up
    by (simp add: ih csv_row_prints_def csv_row_data_def validate_plain_strings collect_def
        split: option.splits)
qed

section \<open>The claims\<close>

subsection \<open>C1: what the Record Validator returns\<close>




subsection \<open>C2: the Deduplication Filter keeps first occurrences\<close>



subsection \<open>C3: the margin\<close>



subsection \<open>C4: a bad row does not stop the stream\<close>

text \<open>
  Claim C4, as amended. In \<open>stream_csv\<close> every data row contributes exactly one event
  that depends on that row alone: a warning when it has fewer than 2 columns or a field
  that \<^verbatim>\<open>float\<close> rejects, the record otherwise; the loop never raises, so when reading
  the file does not fail the stream ends exhausted and every valid row is yielded, in
  file order, whatever precedes it. In \<open>stream_json\<close>, when no item holds an integer
  too large for a float, every item likewise contributes its own events, the stream ends
  exhausted, and a pair of values gives either its record or one warning; an item that
  is neither an object nor a list of at least 2 elements contributes nothing, no
  diagnostic included.
\<close>
theorem row_failures_isolated:
  "csv_rows n rows = (map2 csv_row_event [n..<n + length rows] rows, None)
   \<and> (detect_encoding src = (ls, Inr enc) \<and> reading src enc = (rows, None) \<longrightarrow>
        stream_csv src
          = (ls @ map2 csv_row_event [2..<2 + length (drop 1 rows)] (drop 1 rows), Exhausted))
   \<and> (list_all (\<lambda>item. \<not> item_overflows key_rev key_prof item) items \<longrightarrow>
        json_items key_rev key_prof i items
          = (concat (map2 (json_item_events key_rev key_prof) [i..<i + length items] items), None)
        \<and> snd (stream_json (Inr (PList items)) key_rev key_prof) = Exhausted
        \<and> yielded (fst (stream_json (Inr (PList items)) key_rev key_prof))
            = yielded (concat (map2 (json_item_events key_rev key_prof) [0..<length items] items)))
   \<and> (\<not> overflows r \<and> \<not> overflows p \<longrightarrow>
        (\<exists>record. validated_events oid r p = [Yield record])
        \<or> validated_events oid r p = [Log WARNING (Skipping_invalid_data_row r p)])"
proof -
  have A: "stream_csv src
      = (ls @ map2 csv_row_event [2..<2 + length (drop 1 rows)] (drop 1 rows), Exhausted)"
    if "detect_encoding src = (ls, Inr enc)" "reading src enc = (rows, None)"
    using stream_csv_result [OF that] by simp
  have B: "json_items key_rev key_prof i items
        = (concat (map2 (json_item_events key_rev key_prof) [i..<i + length items] items), None)
      \<and> snd (stream_json (Inr (PList items)) key_rev key_prof) = Exhausted
      \<and> yielded (fst (stream_json (Inr (PList items)) key_rev key_prof))
          = yielded (concat (map2 (json_item_events key_rev key_prof) [0..<length items] items))"
    if h: "list_all (\<lambda>item. \<not> item_overflows key_rev key_prof item) items"
  proof -
    have j: "json_items key_rev key_prof 0 items
        = (concat (map2 (json_item_events key_rev key_prof) [0..<length items] items), None)"
      using json_items_events [OF h, of 0] by simp
    have "snd (stream_json (Inr (PList items)) key_rev key_prof) = Exhausted
      \<and> yielded (fst (stream_json (Inr (PList items)) key_rev key_prof))
          = yielded (concat (map2 (json_item_events key_rev key_prof) [0..<length items] items))"
      by (simp add: stream_json_def j Let_def split: list.splits pyval.splits)
    then show ?thesis
      using json_items_events [OF h, of i] by simp
  qed
  have C: "(\<exists>record. validated_events oid r p = [Yield record])
      \<or> validated_events oid r p = [Log WARNING (Skipping_invalid_data_row r p)]"
    if o: "\<not> overflows r" "\<not> overflows p"
  proof -
    have a: "py_float oid r = Inl x \<Longrightarrow> x = ValueError \<or> x = TypeError" for x
      using py_float_error [of oid r x] o by blast
    have b: "py_float (Suc oid) p = Inl x \<Longrightarrow> x = ValueError \<or> x = TypeError" for x
      using py_float_error [of "Suc oid" p x] o by blast
    show ?thesis
      using a b by (auto simp: validated_events_def validate_record_def Let_def split: sum.splits)
  qed
  show ?thesis
    using csv_rows_events [of n rows] A B C by blast
qed

text \<open>
  The theorem on a CSV body with a short row and a non-numeric row between two valid
  rows, and on the JSON example of the specification, whose second item is dropped.
\<close>
theorem row_failures_isolated_witness:
  "csv_rows 2 [[''100'', ''10''], [''oops''], [''a'', ''b''], [''200'', ''20'']]
     = ([Yield \<lparr>revenue = Fin 100, profit = Fin 10\<rparr>,
         Log WARNING (Insufficient_columns 3),
         Log WARNING (Skipping_invalid_data_row (PStr ''a'') (PStr ''b'')),
         Yield \<lparr>revenue = Fin 200, profit = Fin 20\<rparr>], None)
   \<and> stream_csv (csv_of [[''revenue'', ''profit''], [''x'', ''1''], [''200'', ''20'']] None)
       = ([Log WARNING (Skipping_invalid_data_row (PStr ''x'') (PStr ''1'')),
           Yield \<lparr>revenue = Fin 200, profit = Fin 20\<rparr>], Exhausted)
   \<and> snd (stream_json (Inr (PList
          [PDict [(''revenue'', PInt 100), (''profit'', PInt 10)],
           PDict [(''revenue'', PInt 200), (''profit'', PStr ''x'')]])) ''revenue'' ''profit'')
       = Exhausted
   \<and> yielded (fst (stream_json (Inr (PList
          [PDict [(''revenue'', PInt 100), (''profit'', PInt 10)],
           PDict [(''revenue'', PInt 200), (''profit'', PStr ''x'')]])) ''revenue'' ''profit''))
       = [\<lparr>revenue = Fin 100, profit = Fin 10\<rparr>]
   \<and> ((\<exists>record. validated_events 0 (PInt 200) (PStr ''x'') = [Yield record])
        \<or> validated_events 0 (PInt 200) (PStr ''x'')
            = [Log WARNING (Skipping_invalid_data_row (PInt 200) (PStr ''x''))])"
proof -
  let ?rows = "[[''100'', ''10''], [''oops''], [''a'', ''b''], [''200'', ''20'']]"
  let ?file = "[[''revenue'', ''profit''], [''x'', ''1''], [''200'', ''20'']]"
  let ?items = "[PDict [(''revenue'', PInt 100), (''profit'', PInt 10)],
                 PDict [(''revenue'', PInt 200), (''profit'', PStr ''x'')]]"
  have ev: "map2 csv_row_event [2..<2 + length ?rows] ?rows
      = [Yield \<lparr>revenue = Fin 100, profit = Fin 10\<rparr>,
         Log WARNING (Insufficient_columns 3),
         Log WARNING (Skipping_invalid_data_row (PStr ''a'') (PStr ''b'')),
         Yield \<lparr>revenue = Fin 200, profit = Fin 20\<rparr>]"
    by code_simp
  have fv: "[] @ map2 csv_row_event [2..<2 + length (drop 1 ?file)] (drop 1 ?file)
      = [Log WARNING (Skipping_invalid_data_row (PStr ''x'') (PStr ''1'')),
         Yield \<lparr>revenue = Fin 200, profit = Fin 20\<rparr>]"
    by code_simp
  have d: "detect_encoding (csv_of ?file None) = ([], Inr UTF8)"
    by (simp add: detect_encoding_def csv_of_def)
  have rd: "reading (csv_of ?file None) UTF8 = (?file, None)"
    by (simp add: csv_of_def)
  have ok: "list_all (\<lambda>item. \<not> item_overflows ''revenue'' ''profit'' item) ?items"
    by code_simp
  have no: "\<not> overflows (PInt 200) \<and> \<not> overflows (PStr ''x'')"
    by code_simp
  have js: "yielded (concat (map2 (json_item_events ''revenue'' ''profit'') [0..<length ?items] ?items))
      = [\<lparr>revenue = Fin 100, profit = Fin 10\<rparr>]"
    by code_simp
  have t: "csv_rows 2 ?rows = (map2 csv_row_event [2..<2 + length ?rows] ?rows, None)
      \<and> snd (stream_json (Inr (PList ?items)) ''revenue'' ''profit'') = Exhausted
      \<and> yielded (fst (stream_json (Inr (PList ?items)) ''revenue'' ''profit''))
          = yielded (concat (map2 (json_item_events ''revenue'' ''profit'') [0..<length ?items] ?items))
      \<and> ((\<exists>record. validated_events 0 (PInt 200) (PStr ''x'') = [Yield record])
          \<or> validated_events 0 (PInt 200) (PStr ''x'')
              = [Log WARNING (Skipping_invalid_data_row (PInt 200) (PStr ''x''))])"
    using row_failures_isolated [where n = 2 and rows = ?rows and items = ?items
        and key_rev = "''revenue''" and key_prof = "''profit''"
        and r = "PInt 200" and p = "PStr ''x''" and oid = 0] ok no
    by blast
  have u: "stream_csv (csv_of ?file None)
      = ([] @ map2 csv_row_event [2..<2 + length (drop 1 ?file)] (drop 1 ?file), Exhausted)"
    using row_failures_isolated [where src = "csv_of ?file None" and ls = "[]" and enc = UTF8
        and rows = ?file] d rd
    by blast
  show ?thesis
    using t u unfolding ev js fv by blast
qed

text \<open>
  The claim as stated fails: the JSON items \<^verbatim>\<open>5\<close>, \<^verbatim>\<open>[1]\<close> and \<^verbatim>\<open>"x"\<close> are
  dropped and nothing is logged.
\<close>
theorem json_item_dropped_silently:
  "stream_json (Inr (PList [PInt 5, PList [PInt 1], PStr ''x'', PList [PInt 1, PInt 2]]))
      ''revenue'' ''profit''
     = ([Yield \<lparr>revenue = Fin 1, profit = Fin 2\<rparr>], Exhausted)
   \<and> logged (fst (stream_json (Inr (PList [PInt 5, PList [PInt 1], PStr ''x'', PList [PInt 1, PInt 2]]))
         ''revenue'' ''profit'')) = []"
  by code_simp

subsection \<open>C5: zero revenue\<close>

text \<open>
  Claim C5, as amended. For every raw pair whose revenue \<^verbatim>\<open>float\<close> turns into zero and
  whose profit \<^verbatim>\<open>float\<close> accepts, \<open>validate_record\<close> of the enterprise variant and
  \<^verbatim>\<open>validate_financial_data\<close> of the tabulate variant return the record, whose margin is
  \<^verbatim>\<open>None\<close>, and the enterprise readers yield it on the CSV path and on the JSON path
  (list items and objects). \<^verbatim>\<open>validate_financial_data\<close> of the plain variant rejects
  the pair with a zero-revenue warning, on its CSV path and on its JSON path alike.
\<close>
theorem zero_revenue_policy:
  "py_float oid r = Inr z \<and> py_eq z (Fin 0 :: float64) \<and> py_float (Suc oid) p = Inr b \<longrightarrow>
     validate_record oid r p = ([], Inr (Some \<lparr>revenue = z, profit = b\<rparr>))
     \<and> margin \<lparr>revenue = z, profit = b\<rparr> = Inr None
     \<and> validate_financial_data_tabulate oid r p = ([], Inr (Some (PFloat z, PFloat b)))
     \<and> validate_financial_data_plain oid r p = ([Eprint (Warning_zero_revenue b)], Inr None)
     \<and> (oid = 2 * k \<longrightarrow>
          (\<forall>s t more rows. r = PStr s \<and> p = PStr t \<longrightarrow>
             fst (csv_rows k ((s # t # more) # rows))
               = Yield \<lparr>revenue = z, profit = b\<rparr> # fst (csv_rows (Suc k) rows)
             \<and> fst (load_csv_rows validate_financial_data_plain k ((s # t # more) # rows))
               = Eprint (Warning_zero_revenue b)
                   # fst (load_csv_rows validate_financial_data_plain (Suc k) rows)
             \<and> snd (load_csv_rows validate_financial_data_plain k ((s # t # more) # rows))
               = snd (load_csv_rows validate_financial_data_plain (Suc k) rows))
          \<and> (\<forall>more items.
             fst (json_items key_rev key_prof k (PList (r # p # more) # items))
               = Yield \<lparr>revenue = z, profit = b\<rparr> # fst (json_items key_rev key_prof (Suc k) items)
             \<and> fst (load_json_items validate_financial_data_plain k (PList (r # p # more) # items))
               = Eprint (Warning_zero_revenue b)
                   # fst (load_json_items validate_financial_data_plain (Suc k) items)
             \<and> snd (load_json_items validate_financial_data_plain k (PList (r # p # more) # items))
               = snd (load_json_items validate_financial_data_plain (Suc k) items))
          \<and> (\<forall>kv items. dict_get kv key_rev = r \<and> dict_get kv key_prof = p \<longrightarrow>
             fst (json_items key_rev key_prof k (PDict kv # items))
               = Yield \<lparr>revenue = z, profit = b\<rparr> # fst (json_items key_rev key_prof (Suc k) items)))"
proof (intro impI, elim conjE)
  assume r: "py_float oid r = Inr z" and z: "py_eq z (Fin 0 :: float64)"
    and p: "py_float (Suc oid) p = Inr b"
  have v: "validate_record oid r p = ([], Inr (Some \<lparr>revenue = z, profit = b\<rparr>))"
    using r p by (simp add: validate_record_def)
  have m: "margin \<lparr>revenue = z, profit = b\<rparr> = Inr None"
    using z by (simp add: margin_def)
  have t: "validate_financial_data_tabulate oid r p = ([], Inr (Some (PFloat z, PFloat b)))"
    using r p by (simp add: validate_financial_data_tabulate_def)
  have q: "validate_financial_data_plain oid r p = ([Eprint (Warning_zero_revenue b)], Inr None)"
    using r p z by (simp add: validate_financial_data_plain_def)
  have paths: "(\<forall>s t more rows. r = PStr s \<and> p = PStr t \<longrightarrow>
             fst (csv_rows k ((s # t # more) # rows))
               = Yield \<lparr>revenue = z, profit = b\<rparr> # fst (csv_rows (Suc k) rows)
             \<and> fst (load_csv_rows validate_financial_data_plain k ((s # t # more) # rows))
               = Eprint (Warning_zero_revenue b)
                   # fst (load_csv_rows validate_financial_data_plain (Suc k) rows)
             \<and> snd (load_csv_rows validate_financial_data_plain k ((s # t # more) # rows))
               = snd (load_csv_rows validate_financial_data_plain (Suc k) rows))
          \<and> (\<forall>more items.
             fst (json_items key_rev key_prof k (PList (r # p # more) # items))
               = Yield \<lparr>revenue = z, profit = b\<rparr> # fst (json_items key_rev key_prof (Suc k) items)
             \<and> fst (load_json_items validate_financial_data_plain k (PList (r # p # more) # items))
               = Eprint (Warning_zero_revenue b)
                   # fst (load_json_items validate_financial_data_plain (Suc k) items)
             \<and> snd (load_json_items validate_financial_data_plain k (PList (r # p # more) # items))
               = snd (load_json_items validate_financial_data_plain (Suc k) items))
          \<and> (\<forall>kv items. dict_get kv key_rev = r \<and> dict_get kv key_prof = p \<longrightarrow>
             fst (json_items key_rev key_prof k (PDict kv # items))
               = Yield \<lparr>revenue = z, profit = b\<rparr> # fst (json_items key_rev key_prof (Suc k) items))"
    if k: "oid = 2 * k"
    using v q unfolding k
    by (auto simp: case_prod_beta collect_def Let_def split: sum.splits)
  show "validate_record oid r p = ([], Inr (Some \<lparr>revenue = z, profit = b\<rparr>))
     \<and> margin \<lparr>revenue = z, profit = b\<rparr> = Inr None
     \<and> validate_financial_data_tabulate oid r p = ([], Inr (Some (PFloat z, PFloat b)))
     \<and> validate_financial_data_plain oid r p = ([Eprint (Warning_zero_revenue b)], Inr None)
     \<and> (oid = 2 * k \<longrightarrow>
          (\<forall>s t more rows. r = PStr s \<and> p = PStr t \<longrightarrow>
             fst (csv_rows k ((s # t # more) # rows))
               = Yield \<lparr>revenue = z, profit = b\<rparr> # fst (csv_rows (Suc k) rows)
             \<and> fst (load_csv_rows validate_financial_data_plain k ((s # t # more) # rows))
               = Eprint (Warning_zero_revenue b)
                   # fst (load_csv_rows validate_financial_data_plain (Suc k) rows)
             \<and> snd (load_csv_rows validate_financial_data_plain k ((s # t # more) # rows))
               = snd (load_csv_rows validate_financial_data_plain (Suc k) rows))
          \<and> (\<forall>more items.
             fst (json_items key_rev key_prof k (PList (r # p # more) # items))
               = Yield \<lparr>revenue = z, profit = b\<rparr> # fst (json_items key_rev key_prof (Suc k) items)
             \<and> fst (load_json_items validate_financial_data_plain k (PList (r # p # more) # items))
               = Eprint (Warning_zero_revenue b)
                   # fst (load_json_items validate_financial_data_plain (Suc k) items)
             \<and> snd (load_json_items validate_financial_data_plain k (PList (r # p # more) # items))
               = snd (load_json_items validate_financial_data_plain (Suc k) items))
          \<and> (\<forall>kv items. dict_get kv key_rev = r \<and> dict_get kv key_prof = p \<longrightarrow>
             fst (json_items key_rev key_prof k (PDict kv # items))
               = Yield \<lparr>revenue = z, profit = b\<rparr> # fst (json_items key_rev key_prof (Suc k) items)))"
    using v m t q paths by blast
qed

text \<open>
  The theorem at the pair \<^verbatim>\<open>("0", "5")\<close>.
\<close>
theorem zero_revenue_policy_witness:
  "validate_record 0 (PStr ''0'') (PStr ''5'') = ([], Inr (Some \<lparr>revenue = Fin 0, profit = Fin 5\<rparr>))
   \<and> margin \<lparr>revenue = Fin 0, profit = Fin 5\<rparr> = Inr None
   \<and> validate_financial_data_tabulate 0 (PStr ''0'') (PStr ''5'')
       = ([], Inr (Some (PFloat (Fin 0), PFloat (Fin 5))))
   \<and> fst (csv_rows 0 [[''0'', ''5'']]) = [Yield \<lparr>revenue = Fin 0, profit = Fin 5\<rparr>]
   \<and> fst (json_items ''revenue'' ''profit'' 0 [PList [PStr ''0'', PStr ''5'']])
       = [Yield \<lparr>revenue = Fin 0, profit = Fin 5\<rparr>]
   \<and> fst (json_items ''revenue'' ''profit'' 0
          [PDict [(''revenue'', PStr ''0''), (''profit'', PStr ''5'')]])
       = [Yield \<lparr>revenue = Fin 0, profit = Fin 5\<rparr>]"
proof -
  let ?kv = "[(''revenue'', PStr ''0''), (''profit'', PStr ''5'')]"
  have a: "py_float 0 (PStr ''0'') = Inr (Fin 0)" by code_simp
  have b: "py_float (Suc 0) (PStr ''5'') = Inr (Fin 5)" by code_simp
  have z: "py_eq (Fin 0 :: pyfloat) (Fin 0 :: float64)" by simp
  have k: "(0::nat) = 2 * 0" by simp
  have g: "dict_get ?kv ''revenue'' = PStr ''0'' \<and> dict_get ?kv ''profit'' = PStr ''5''"
    by code_simp
  note t = zero_revenue_policy [where oid = 0 and r = "PStr ''0''" and p = "PStr ''5''"
      and z = "Fin 0" and b = "Fin 5" and k = 0 and key_rev = "''revenue''" and key_prof = "''profit''"]
  have c: "fst (csv_rows 0 ([''0'', ''5''] # [])) = Yield \<lparr>revenue = Fin 0, profit = Fin 5\<rparr> # fst (csv_rows (Suc 0) [])"
    using t a b z k by blast
  have j: "fst (json_items ''revenue'' ''profit'' 0 (PList (PStr ''0'' # PStr ''5'' # []) # []))
      = Yield \<lparr>revenue = Fin 0, profit = Fin 5\<rparr> # fst (json_items ''revenue'' ''profit'' (Suc 0) [])"
    using t a b z k by blast
  have m: "fst (json_items ''revenue'' ''profit'' 0 (PDict ?kv # []))
      = Yield \<lparr>revenue = Fin 0, profit = Fin 5\<rparr> # fst (json_items ''revenue'' ''profit'' (Suc 0) [])"
    using t a b z k g by blast
  have "validate_record 0 (PStr ''0'') (PStr ''5'') = ([], Inr (Some \<lparr>revenue = Fin 0, profit = Fin 5\<rparr>))
     \<and> margin \<lparr>revenue = Fin 0, profit = Fin 5\<rparr> = Inr None
     \<and> validate_financial_data_tabulate 0 (PStr ''0'') (PStr ''5'')
         = ([], Inr (Some (PFloat (Fin 0), PFloat (Fin 5))))"
    using t a b z by blast
  then show ?thesis
    using c j m by simp
qed

text \<open>
  The claim as stated fails in the plain variant: the pair \<^verbatim>\<open>("0", "5")\<close> is rejected.
\<close>
theorem plain_rejects_zero_revenue:
  "validate_financial_data_plain 0 (PStr ''0'') (PStr ''5'')
     = ([Eprint (Warning_zero_revenue (Fin 5))], Inr None)
   \<and> load_data_from_csv validate_financial_data_plain (csv_of [[''revenue'', ''profit''], [''0'', ''5'']] None)
     = ([Eprint (Warning_zero_revenue (Fin 5))], [])"
  by code_simp

subsection \<open>C6: the Deduplication Filter is idempotent\<close>

text \<open>
  Claim C6. Running \<open>pipeline_dedupe\<close> over its own output changes nothing: the whole
  trace is the same, and for every sequence \<open>S\<close> of records
  \<open>dedupe (dedupe S) = dedupe S\<close>, element for element.
\<close>
theorem pipeline_dedupe_idempotent:
  "pipeline_dedupe (pipeline_dedupe g) = pipeline_dedupe g
   \<and> dedupe (dedupe S) = dedupe S"
proof -
  have trace: "pipeline_dedupe (pipeline_dedupe g) = pipeline_dedupe g" for g
  proof -
    obtain es fin where g: "g = (es, fin)" by (cases g)
    obtain out n where l: "dedupe_loop {} 0 es = (out, n)"
      by (cases "dedupe_loop {} 0 es")
    have y: "yielded out = new_in {} (yielded es)"
      using dedupe_loop_yielded [of "{}" 0 es] l by simp
    have d: "distinct (yielded out)" by (simp add: y new_in_distinct)
    have again: "dedupe_loop {} 0 out = (out, 0)"
      using dedupe_loop_fixed [of out "{}" 0] d by simp
    have again': "dedupe_loop {} 0 (out @ [Log INFO (Removed_duplicate_records n)])
        = (out @ [Log INFO (Removed_duplicate_records n)], 0)"
      using dedupe_loop_fixed [of "out @ [Log INFO (Removed_duplicate_records n)]" "{}" 0] d by simp
    show ?thesis
      using l again again' by (cases fin) (simp_all add: g pipeline_dedupe_def)
  qed
  have seq: "dedupe S = new_in {} S" for S
  proof -
    obtain out n where l: "dedupe_loop {} 0 (map Yield S) = (out, n)"
      by (cases "dedupe_loop {} 0 (map Yield S)")
    have "yielded out = new_in {} S"
      using dedupe_loop_yielded [of "{}" 0 "map Yield S"] l by simp
    then show ?thesis
      using l by (simp add: dedupe_def pipeline_dedupe_def iterator_of_def)
  qed
  have "new_in {} (new_in {} S) = new_in {} S"
    by (rule new_in_fixed) (simp_all add: new_in_distinct)
  then show ?thesis using trace seq by simp
qed

text \<open>
  The theorem on \<^verbatim>\<open>[(100,10), (200,20), (100,10)]\<close>.
\<close>
theorem pipeline_dedupe_idempotent_witness:
  "dedupe (dedupe [\<lparr>revenue = Fin 100, profit = Fin 10\<rparr>, \<lparr>revenue = Fin 200, profit = Fin 20\<rparr>,
                   \<lparr>revenue = Fin 100, profit = Fin 10\<rparr>])
     = [\<lparr>revenue = Fin 100, profit = Fin 10\<rparr>, \<lparr>revenue = Fin 200, profit = Fin 20\<rparr>]"
proof -
  have "dedupe [\<lparr>revenue = Fin 100, profit = Fin 10\<rparr>, \<lparr>revenue = Fin 200, profit = Fin 20\<rparr>,
                \<lparr>revenue = Fin 100, profit = Fin 10\<rparr>]
      = [\<lparr>revenue = Fin 100, profit = Fin 10\<rparr>, \<lparr>revenue = Fin 200, profit = Fin 20\<rparr>]"
    by code_simp
  then show ?thesis
    using pipeline_dedupe_idempotent
      [where S = "[\<lparr>revenue = Fin 100, profit = Fin 10\<rparr>, \<lparr>revenue = Fin 200, profit = Fin 20\<rparr>,
                   \<lparr>revenue = Fin 100, profit = Fin 10\<rparr>]"]
    by simp
qed

subsection \<open>C7: failures while reading a CSV file\<close>

text \<open>
  Claim C7, as amended. In the enterprise variant, once probing has chosen an encoding,
  every failure while the file is opened or read, at any point, makes \<open>stream_csv\<close>
  log an error-level diagnostic as its last event and end the process with status 1; the
  closing rule and the totals are then never printed, but the banner, the table header
  and the rows yielded before the failure have been printed already. A
  \<^verbatim>\<open>UnicodeDecodeError\<close> while probing is not a failure: the reader falls back to Latin-1.
  In the plain and tabulate variants a failure of the read makes
  \<^verbatim>\<open>load_data_from_csv\<close> print the error on \<^verbatim>\<open>stderr\<close> and return no data, and the run
  prints the no-data notice and ends with status 0.
\<close>
theorem csv_read_failure:
  "(detect_encoding src = (ls, Inr enc) \<and> reading src enc = (rows, Some e) \<longrightarrow>
      stream_csv src
        = (ls @ map2 csv_row_event [2..<2 + length (drop 1 rows)] (drop 1 rows)
             @ [Log ERROR (Failed_to_read_CSV e)], SysExit 1)
      \<and> (endswith path ''.csv'' \<and> csv_file fs path = src \<longrightarrow>
            snd (main_enterprise fs path kr kp) = 1
            \<and> last (logged (fst (main_enterprise fs path kr kp))) = (ERROR, Failed_to_read_CSV e)
            \<and> printed (fst (main_enterprise fs path kr kp))
                = [Generating_report_for path, Table_header, Table_rule]
                  @ map row_line (first_occurrences
                      (yielded (map2 csv_row_event [2..<2 + length (drop 1 rows)] (drop 1 rows))))))
   \<and> (probe src = Some UnicodeDecodeError \<longrightarrow>
        detect_encoding src = ([Log INFO Utf8_failed_trying_latin1], Inr Latin1))
   \<and> (reading src UTF8 = (rows, Some e) \<longrightarrow>
        snd (load_data_from_csv validate src) = []
        \<and> (\<exists>es x. fst (load_data_from_csv validate src) = es @ [Eprint (Error_reading_CSV x)])
        \<and> (endswith path ''.csv'' \<and> csv_file fs path = src \<longrightarrow>
              snd (main_plain fs (Some path)) = 0
              \<and> printed (fst (main_plain fs (Some path))) = [No_valid_data_to_display]
              \<and> snd (main_tabulate fs (Some path) fmt) = 0
              \<and> printed (fst (main_tabulate fs (Some path) fmt)) = [No_valid_data_to_display]))"
proof -
  let ?E = "map2 csv_row_event [2..<2 + length (drop 1 rows)] (drop 1 rows)"
  have A: "stream_csv src = (ls @ ?E @ [Log ERROR (Failed_to_read_CSV e)], SysExit 1)"
    if "detect_encoding src = (ls, Inr enc)" "reading src enc = (rows, Some e)"
    using stream_csv_result [OF that] by simp
  have B: "snd (main_enterprise fs path kr kp) = 1
      \<and> last (logged (fst (main_enterprise fs path kr kp))) = (ERROR, Failed_to_read_CSV e)
      \<and> printed (fst (main_enterprise fs path kr kp))
          = [Generating_report_for path, Table_header, Table_rule]
            @ map row_line (first_occurrences (yielded ?E))"
    if d: "detect_encoding src = (ls, Inr enc)" and r: "reading src enc = (rows, Some e)"
      and f: "endswith path ''.csv''" "csv_file fs path = src"
  proof -
    let ?S = "ls @ ?E @ [Log ERROR (Failed_to_read_CSV e)]"
    obtain out n where l: "dedupe_loop {} 0 ?S = (out, n)"
      by (cases "dedupe_loop {} 0 ?S")
    obtain tab c t where tr: "table_rows 0 (Fin 0) out = (tab, Inr (c, t))"
      using table_rows_Inr [of 0 "Fin 0" out] by (cases "table_rows 0 (Fin 0) out") auto
    have pls: "printed ls = []"
      using detect_encoding_cases [OF d] by auto
    have pS: "printed ?S = []"
      by (simp add: pls csv_events_printed)
    have yls: "yielded ls = []"
      using detect_encoding_cases [OF d] by auto
    have po: "printed out = []"
      using dedupe_loop_printed [of "{}" 0 ?S] l pS by simp
    have yo: "yielded out = first_occurrences (yielded ?E)"
      using dedupe_loop_yielded [of "{}" 0 ?S] l yls by (simp add: first_occurrences_new_in)
    have lo: "logged out = logged ls @ logged ?E @ [(ERROR, Failed_to_read_CSV e)]"
      using dedupe_loop_logged [of "{}" 0 ?S] l by simp
    have lt: "logged tab = logged out"
      using table_rows_logged [of 0 "Fin 0" out] tr by simp
    have pt: "printed tab = map row_line (yielded out)"
      using table_rows_printed [OF po, of 0 "Fin 0"] tr by simp
    have m: "main_enterprise fs path kr kp
        = (Print (Generating_report_for path) # Print Table_header # Print Table_rule # tab, 1)"
      using f A [OF d r] l tr
      by (simp add: main_enterprise_def report_def pipeline_dedupe_def format_table_def exit_status_def)
    show ?thesis
      by (simp add: m lt lo pt yo)
  qed
  have C: "detect_encoding src = ([Log INFO Utf8_failed_trying_latin1], Inr Latin1)"
    if "probe src = Some UnicodeDecodeError"
    using that by (simp add: detect_encoding_def)
  have D: "snd (load_data_from_csv validate src) = []
      \<and> (\<exists>es x. fst (load_data_from_csv validate src) = es @ [Eprint (Error_reading_CSV x)])"
    if "reading src UTF8 = (rows, Some e)"
    using that by (auto simp: load_data_from_csv_def split: prod.splits sum.splits)
  have E: "snd (main_plain fs (Some path)) = 0
      \<and> printed (fst (main_plain fs (Some path))) = [No_valid_data_to_display]
      \<and> snd (main_tabulate fs (Some path) fmt) = 0
      \<and> printed (fst (main_tabulate fs (Some path) fmt)) = [No_valid_data_to_display]"
    if r: "reading src UTF8 = (rows, Some e)" and f: "endswith path ''.csv''" "csv_file fs path = src"
  proof -
    have ne: "path \<noteq> []" using f(1) by (auto simp: endswith_def)
    obtain es1 where p: "load_data_from_csv validate_financial_data_plain src = (es1, [])"
      and p1: "printed es1 = []"
      using load_data_from_csv_failed [where v = validate_financial_data_plain, OF validate_plain_printed r]
      by (cases "load_data_from_csv validate_financial_data_plain src") auto
    obtain es2 where t: "load_data_from_csv validate_financial_data_tabulate src = (es2, [])"
      and t1: "printed es2 = []"
      using load_data_from_csv_failed [where v = validate_financial_data_tabulate, OF validate_tabulate_printed r]
      by (cases "load_data_from_csv validate_financial_data_tabulate src") auto
    show ?thesis
      using ne f p p1 t t1
      by (simp add: main_plain_def main_tabulate_def load_data_def format_and_print_table_def
          exit_status_def)
  qed
  show ?thesis using A B C D E by blast
qed

text \<open>
  The theorem on a file whose read fails after the header and two equal rows.
\<close>
theorem csv_read_failure_witness:
  "snd (main_enterprise
          (files_with (csv_of [[''revenue'', ''profit''], [''100'', ''10''], [''100'', ''10'']] (Some OSError))
             (Inr PNone))
          ''data.csv'' ''revenue'' ''profit'') = 1
   \<and> last (logged (fst (main_enterprise
          (files_with (csv_of [[''revenue'', ''profit''], [''100'', ''10''], [''100'', ''10'']] (Some OSError))
             (Inr PNone))
          ''data.csv'' ''revenue'' ''profit''))) = (ERROR, Failed_to_read_CSV OSError)
   \<and> printed (fst (main_enterprise
          (files_with (csv_of [[''revenue'', ''profit''], [''100'', ''10''], [''100'', ''10'']] (Some OSError))
             (Inr PNone))
          ''data.csv'' ''revenue'' ''profit''))
       = [Generating_report_for ''data.csv'', Table_header, Table_rule,
          Table_row \<lparr>revenue = Fin 100, profit = Fin 10\<rparr>
            (Some (Fin (3602879701896397 / 36028797018963968)))]
   \<and> snd (main_plain
          (files_with (csv_of [[''revenue'', ''profit''], [''100'', ''10''], [''100'', ''10'']] (Some OSError))
             (Inr PNone))
          (Some ''data.csv'')) = 0
   \<and> printed (fst (main_plain
          (files_with (csv_of [[''revenue'', ''profit''], [''100'', ''10''], [''100'', ''10'']] (Some OSError))
             (Inr PNone))
          (Some ''data.csv''))) = [No_valid_data_to_display]
   \<and> detect_encoding \<lparr>probe = Some UnicodeDecodeError, reading = (\<lambda>enc. ([], None))\<rparr>
       = ([Log INFO Utf8_failed_trying_latin1], Inr Latin1)"
proof -
  let ?rows = "[[''revenue'', ''profit''], [''100'', ''10''], [''100'', ''10'']]"
  let ?src = "csv_of ?rows (Some OSError)"
  let ?fs = "files_with ?src (Inr PNone)"
  have d: "detect_encoding ?src = ([], Inr UTF8)"
    by (simp add: detect_encoding_def csv_of_def)
  have r: "reading ?src UTF8 = (?rows, Some OSError)"
    by (simp add: csv_of_def)
  have f: "endswith ''data.csv'' ''.csv''"
    by code_simp
  have c: "csv_file ?fs ''data.csv'' = ?src"
    by (simp add: files_with_def)
  have p: "[Generating_report_for ''data.csv'', Table_header, Table_rule]
        @ map row_line (first_occurrences
            (yielded (map2 csv_row_event [2..<2 + length (drop 1 ?rows)] (drop 1 ?rows))))
      = [Generating_report_for ''data.csv'', Table_header, Table_rule,
         Table_row \<lparr>revenue = Fin 100, profit = Fin 10\<rparr>
           (Some (Fin (3602879701896397 / 36028797018963968)))]"
    by code_simp
  note t = csv_read_failure [where src = ?src and ls = "[]" and enc = UTF8 and rows = ?rows
      and e = OSError and path = "''data.csv''" and fs = ?fs
      and kr = "''revenue''" and kp = "''profit''"]
  have "snd (main_enterprise ?fs ''data.csv'' ''revenue'' ''profit'') = 1
      \<and> last (logged (fst (main_enterprise ?fs ''data.csv'' ''revenue'' ''profit'')))
          = (ERROR, Failed_to_read_CSV OSError)
      \<and> printed (fst (main_enterprise ?fs ''data.csv'' ''revenue'' ''profit''))
          = [Generating_report_for ''data.csv'', Table_header, Table_rule]
            @ map row_line (first_occurrences
                (yielded (map2 csv_row_event [2..<2 + length (drop 1 ?rows)] (drop 1 ?rows))))
      \<and> snd (main_plain ?fs (Some ''data.csv'')) = 0
      \<and> printed (fst (main_plain ?fs (Some ''data.csv''))) = [No_valid_data_to_display]"
    using t d r f c by blast
  moreover have "detect_encoding \<lparr>probe = Some UnicodeDecodeError, reading = (\<lambda>enc. ([], None))\<rparr>
      = ([Log INFO Utf8_failed_trying_latin1], Inr Latin1)"
    using csv_read_failure
      [where src = "\<lparr>probe = Some UnicodeDecodeError, reading = (\<lambda>enc. ([], None))\<rparr>"]
    by simp
  ultimately show ?thesis
    unfolding p by blast
qed

text \<open>
  The claim as stated fails: a missing file ends the enterprise run with no error
  diagnostic, after the banner and the table header; a failure after one row leaves that
  row printed; and the plain variant ends a failed read with status 0.
\<close>
theorem csv_failure_not_always_fatal:
  "main_enterprise (files_with missing_csv (Inr PNone)) ''data.csv'' ''revenue'' ''profit''
     = ([Print (Generating_report_for ''data.csv''), Print Table_header, Print Table_rule], 1)
   \<and> main_enterprise
       (files_with (csv_of [[''revenue'', ''profit''], [''100'', ''10'']] (Some UnicodeDecodeError)) (Inr PNone))
       ''data.csv'' ''revenue'' ''profit''
     = ([Print (Generating_report_for ''data.csv''), Print Table_header, Print Table_rule,
         Print (Table_row \<lparr>revenue = Fin 100, profit = Fin 10\<rparr>
           (Some (Fin (3602879701896397 / 36028797018963968)))),
         Log ERROR (Failed_to_read_CSV UnicodeDecodeError)], 1)
   \<and> main_plain (files_with missing_csv (Inr PNone)) (Some ''data.csv'')
     = ([Eprint (Error_reading_CSV FileNotFoundError), Print No_valid_data_to_display], 0)"
  by code_simp

subsection \<open>C8: unsupported extensions\<close>

text \<open>
  Claim C8, as amended. For every path that ends neither with \<^verbatim>\<open>.csv\<close> nor with
  \<^verbatim>\<open>.json\<close>, the enterprise variant produces no record, prints nothing, logs an
  error-level unsupported-extension diagnostic and exits with status 1. The plain and
  tabulate variants, given such a (non-empty) path, print that the input file must be
  \<^verbatim>\<open>.csv\<close> or \<^verbatim>\<open>.json\<close>, produce no table, and end with status 0.
\<close>
theorem unsupported_extension:
  "\<not> endswith file ''.csv'' \<and> \<not> endswith file ''.json'' \<longrightarrow>
     main_enterprise fs file rev_key prof_key = ([Log ERROR Unsupported_file_extension], 1)
     \<and> (file \<noteq> [] \<longrightarrow>
          main_plain fs (Some file) = ([Print Input_file_must_be_csv_or_json], 0)
          \<and> main_tabulate fs (Some file) fmt = ([Print Input_file_must_be_csv_or_json], 0))"
  by (simp add: main_enterprise_def main_plain_def main_tabulate_def load_data_def)

text \<open>
  The theorem at \<^verbatim>\<open>report.txt\<close> and, the test being case-sensitive, at \<^verbatim>\<open>DATA.CSV\<close>.
\<close>
theorem unsupported_extension_witness:
  "main_enterprise (files_with missing_csv (Inr PNone)) ''report.txt'' ''revenue'' ''profit''
     = ([Log ERROR Unsupported_file_extension], 1)
   \<and> main_enterprise (files_with missing_csv (Inr PNone)) ''DATA.CSV'' ''revenue'' ''profit''
     = ([Log ERROR Unsupported_file_extension], 1)
   \<and> main_tabulate (files_with missing_csv (Inr PNone)) (Some ''report.txt'') ''simple''
     = ([Print Input_file_must_be_csv_or_json], 0)"
proof -
  have a: "\<not> endswith ''report.txt'' ''.csv'' \<and> \<not> endswith ''report.txt'' ''.json''"
    by code_simp
  have b: "\<not> endswith ''DATA.CSV'' ''.csv'' \<and> \<not> endswith ''DATA.CSV'' ''.json''"
    by code_simp
  have c: "''report.txt'' \<noteq> []" by simp
  show ?thesis
    using unsupported_extension [of "''report.txt''" "files_with missing_csv (Inr PNone)"
        "''revenue''" "''profit''" "''simple''"]
      unsupported_extension [of "''DATA.CSV''" "files_with missing_csv (Inr PNone)"
        "''revenue''" "''profit''" "''simple''"] a b c
    by blast
qed

text \<open>
  The claim as stated fails in the plain variant: \<^verbatim>\<open>report.txt\<close> ends with status 0.
\<close>
theorem plain_unsupported_extension_exit_zero:
  "\<not> endswith ''report.txt'' ''.csv'' \<and> \<not> endswith ''report.txt'' ''.json''
   \<and> main_plain (files_with missing_csv (Inr PNone)) (Some ''report.txt'')
       = ([Print Input_file_must_be_csv_or_json], 0)"
  by code_simp

subsection \<open>C9: the first CSV row is discarded\<close>

text \<open>
  Claim C9. The CSV readers discard exactly the first row, whatever it holds, and keep
  the rows after it: the result of \<open>stream_csv\<close>, and of \<^verbatim>\<open>load_data_from_csv\<close> of
  the plain and tabulate variants, is the same for any two first rows; the stream over a
  readable file is made of the events of the rows after the first, numbered from line 2;
  and what \<^verbatim>\<open>load_data_from_csv\<close> prints and returns on a file that is read to its end
  is what each row after the first contributes on its own, in file order. An empty file
  gives an empty stream and no data.
\<close>
theorem csv_first_row_dropped:
  "stream_csv (src\<lparr>reading := (\<lambda>enc. (first # rows, failure))\<rparr>)
     = stream_csv (src\<lparr>reading := (\<lambda>enc. (first' # rows, failure))\<rparr>)
   \<and> load_data_from_csv validate (src\<lparr>reading := (\<lambda>enc. (first # rows, failure))\<rparr>)
     = load_data_from_csv validate (src\<lparr>reading := (\<lambda>enc. (first' # rows, failure))\<rparr>)
   \<and> stream_csv (csv_of (first # rows) None)
     = (map2 csv_row_event [2..<2 + length rows] rows, Exhausted)
   \<and> stream_csv (csv_of [] None) = ([], Exhausted)
   \<and> load_data_from_csv validate_financial_data_plain
         (src\<lparr>reading := (\<lambda>enc. (first # rows, None))\<rparr>)
     = (concat (map2 (csv_row_prints False) [0..<length rows] rows),
        concat (map2 (csv_row_data False) [0..<length rows] rows))
   \<and> load_data_from_csv validate_financial_data_tabulate
         (src\<lparr>reading := (\<lambda>enc. (first # rows, None))\<rparr>)
     = (concat (map2 (csv_row_prints True) [0..<length rows] rows),
        concat (map2 (csv_row_data True) [0..<length rows] rows))
   \<and> load_data_from_csv validate (src\<lparr>reading := (\<lambda>enc. ([], None))\<rparr>) = ([], [])"
proof -
  have d: "detect_encoding (csv_of rs None) = ([], Inr UTF8)" for rs
    by (simp add: detect_encoding_def csv_of_def)
  have r: "reading (csv_of rs None) UTF8 = (rs, None)" for rs
    by (simp add: csv_of_def)
  have a: "stream_csv (csv_of (first # rows) None)
      = (map2 csv_row_event [2..<2 + length rows] rows, Exhausted)"
    using stream_csv_result [OF d r, of "first # rows"] by simp
  have b: "stream_csv (csv_of [] None) = ([], Exhausted)"
    using stream_csv_result [OF d r, of "[]"] by simp
  have c: "stream_csv (src\<lparr>reading := (\<lambda>enc. (first # rows, failure))\<rparr>)
      = stream_csv (src\<lparr>reading := (\<lambda>enc. (first' # rows, failure))\<rparr>)"
    by (cases "probe src") (simp_all add: stream_csv_def detect_encoding_def)
  have e: "load_data_from_csv validate (src\<lparr>reading := (\<lambda>enc. (first # rows, failure))\<rparr>)
      = load_data_from_csv validate (src\<lparr>reading := (\<lambda>enc. (first' # rows, failure))\<rparr>)"
    by (simp add: load_data_from_csv_def)
  have f: "load_data_from_csv validate_financial_data_plain
        (src\<lparr>reading := (\<lambda>enc. (first # rows, None))\<rparr>)
      = (concat (map2 (csv_row_prints False) [0..<length rows] rows),
         concat (map2 (csv_row_data False) [0..<length rows] rows))"
    using load_csv_rows_plain [of 0 rows] by (simp add: load_data_from_csv_def)
  have g: "load_data_from_csv validate_financial_data_tabulate
        (src\<lparr>reading := (\<lambda>enc. (first # rows, None))\<rparr>)
      = (concat (map2 (csv_row_prints True) [0..<length rows] rows),
         concat (map2 (csv_row_data True) [0..<length rows] rows))"
    using load_csv_rows_tabulate [of 0 rows] by (simp add: load_data_from_csv_def)
  have h: "load_data_from_csv validate (src\<lparr>reading := (\<lambda>enc. ([], None))\<rparr>) = ([], [])"
    by (simp add: load_data_from_csv_def)
  show ?thesis
    using a b c e f g h by blast
qed

text \<open>
  The examples of the specification, for the enterprise reader and for the loader of the
  other two variants: a header and two data rows give 2 records; without a header the
  first data row is lost.
\<close>
theorem csv_first_row_dropped_witness:
  "yielded (fst (stream_csv (csv_of [[''revenue'', ''profit''], [''100'', ''10''], [''200'', ''20'']] None)))
     = [\<lparr>revenue = Fin 100, profit = Fin 10\<rparr>, \<lparr>revenue = Fin 200, profit = Fin 20\<rparr>]
   \<and> yielded (fst (stream_csv (csv_of [[''100'', ''10''], [''200'', ''20'']] None)))
     = [\<lparr>revenue = Fin 200, profit = Fin 20\<rparr>]
   \<and> load_data_from_csv validate_financial_data_plain
         (missing_csv\<lparr>reading := (\<lambda>enc.
            ([''revenue'', ''profit''] # [[''100'', ''10''], [''200'', ''20'']], None))\<rparr>)
     = ([], [(PFloat (Fin 100), PFloat (Fin 10)), (PFloat (Fin 200), PFloat (Fin 20))])
   \<and> load_data_from_csv validate_financial_data_plain
         (missing_csv\<lparr>reading := (\<lambda>enc. ([''100'', ''10''] # [[''200'', ''20'']], None))\<rparr>)
     = ([], [(PFloat (Fin 200), PFloat (Fin 20))])
   \<and> load_data_from_csv validate_financial_data_tabulate
         (missing_csv\<lparr>reading := (\<lambda>enc.
            ([''revenue'', ''profit''] # [[''100'', ''10''], [''200'', ''20'']], None))\<rparr>)
     = ([], [(PFloat (Fin 100), PFloat (Fin 10)), (PFloat (Fin 200), PFloat (Fin 20))])"
proof -
  let ?two = "[[''100'', ''10''], [''200'', ''20'']]"
  let ?one = "[[''200'', ''20'']]"
  have a: "map2 csv_row_event [2..<2 + length ?two] ?two
      = [Yield \<lparr>revenue = Fin 100, profit = Fin 10\<rparr>, Yield \<lparr>revenue = Fin 200, profit = Fin 20\<rparr>]"
    by code_simp
  have b: "map2 csv_row_event [2..<2 + length ?one] ?one
      = [Yield \<lparr>revenue = Fin 200, profit = Fin 20\<rparr>]"
    by code_simp
  have p2: "(concat (map2 (csv_row_prints False) [0..<length ?two] ?two),
             concat (map2 (csv_row_data False) [0..<length ?two] ?two))
      = ([], [(PFloat (Fin 100), PFloat (Fin 10)), (PFloat (Fin 200), PFloat (Fin 20))])"
    by code_simp
  have p1: "(concat (map2 (csv_row_prints False) [0..<length ?one] ?one),
             concat (map2 (csv_row_data False) [0..<length ?one] ?one))
      = ([], [(PFloat (Fin 200), PFloat (Fin 20))])"
    by code_simp
  have t2: "(concat (map2 (csv_row_prints True) [0..<length ?two] ?two),
             concat (map2 (csv_row_data True) [0..<length ?two] ?two))
      = ([], [(PFloat (Fin 100), PFloat (Fin 10)), (PFloat (Fin 200), PFloat (Fin 20))])"
    by code_simp
  note w2 = csv_first_row_dropped [where first = "[''revenue'', ''profit'']" and rows = ?two
      and src = missing_csv]
  note w1 = csv_first_row_dropped [where first = "[''100'', ''10'']" and rows = ?one
      and src = missing_csv]
  have "stream_csv (csv_of ([''revenue'', ''profit''] # ?two) None)
      = (map2 csv_row_event [2..<2 + length ?two] ?two, Exhausted)"
    using w2 by blast
  moreover have "stream_csv (csv_of ([''100'', ''10''] # ?one) None)
      = (map2 csv_row_event [2..<2 + length ?one] ?one, Exhausted)"
    using w1 by blast
  moreover have "load_data_from_csv validate_financial_data_plain
        (missing_csv\<lparr>reading := (\<lambda>enc. ([''revenue'', ''profit''] # ?two, None))\<rparr>)
      = (concat (map2 (csv_row_prints False) [0..<length ?two] ?two),
         concat (map2 (csv_row_data False) [0..<length ?two] ?two))"
    using w2 by blast
  moreover have "load_data_from_csv validate_financial_data_plain
        (missing_csv\<lparr>reading := (\<lambda>enc. ([''100'', ''10''] # ?one, None))\<rparr>)
      = (concat (map2 (csv_row_prints False) [0..<length ?one] ?one),
         concat (map2 (csv_row_data False) [0..<length ?one] ?one))"
    using w1 by blast
  moreover have "load_data_from_csv validate_financial_data_tabulate
        (missing_csv\<lparr>reading := (\<lambda>enc. ([''revenue'', ''profit''] # ?two, None))\<rparr>)
      = (concat (map2 (csv_row_prints True) [0..<length ?two] ?two),
         concat (map2 (csv_row_data True) [0..<length ?two] ?two))"
    using w2 by blast
  ultimately show ?thesis
    unfolding a b p2 p1 t2 by simp
qed

subsection \<open>C10: no file argument\<close>

text \<open>
  Claim C10. Invoked with no file argument, the plain and the tabulate variant load the
  built-in dataset of four records \<^verbatim>\<open>(1000,10)\<close>, \<^verbatim>\<open>(2000,17)\<close>, \<^verbatim>\<open>(2500,170)\<close>,
  \<^verbatim>\<open>(2500,-170)\<close>, whatever the file system holds, print the report of these four rows
  with their percentages, and end with status 0.
\<close>
theorem no_file_argument:
  "main_plain fs None =
     ([Print Plain_header, Print Plain_rule,
       Print (Plain_row (PInt 1000) (PInt 10) (Some (Fin (5764607523034235 / 576460752303423488)))),
       Print (Plain_row (PInt 2000) (PInt 17) (Some (Fin (1224979098644775 / 144115188075855872)))),
       Print (Plain_row (PInt 2500) (PInt 170) (Some (Fin (1224979098644775 / 18014398509481984)))),
       Print (Plain_row (PInt 2500) (PInt (- 170))
         (Some (Fin (- (1224979098644775 / 18014398509481984)))))], 0)
   \<and> main_tabulate fs None fmt =
     ([Print (Tabulated
        [(PInt 1000, PInt 10, Some (Fin (5764607523034235 / 576460752303423488))),
         (PInt 2000, PInt 17, Some (Fin (1224979098644775 / 144115188075855872))),
         (PInt 2500, PInt 170, Some (Fin (1224979098644775 / 18014398509481984))),
         (PInt 2500, PInt (- 170), Some (Fin (- (1224979098644775 / 18014398509481984))))]
        fmt)], 0)
   \<and> load_data validate fs None
       = Some ([], [(PInt 1000, PInt 10), (PInt 2000, PInt 17), (PInt 2500, PInt 170),
                   (PInt 2500, PInt (- 170))])"
  by code_simp

end
